theory Spec2Isabelle
  imports Main "HOL-Library.AList"
begin

section \<open>Values shared by the edge functions\<close>

text \<open>
  The gateway is three Deno request handlers: two variants of
  \<^verbatim>\<open>exchange-firebase-session\<close> and \<^verbatim>\<open>migrate-firebase-password\<close>.
  Every handler is a straight-line script over the answers of its collaborators (the
  token verifier, the password verifier and the Supabase auth API). The model makes each
  answer an input, every \<^verbatim>\<open>console.*\<close> line and every collaborator call an
  event of a trace, and every thrown exception a value.
\<close>

text \<open>JSON values, as \<^verbatim>\<open>JSON.stringify\<close> and \<^verbatim>\<open>console.log\<close> receive them.
  An object keeps its keys in insertion order.\<close>

datatype jval =
    JUndef
  | JNull
  | JBool bool
  | JNum int
  | JStr string
  | JArr "jval list"
  | JObj "(string \<times> jval) list"

text \<open>An awaited call either rejects (the exception's message) or resolves.\<close>

datatype 'a io = Throws string | Returns 'a

text \<open>JavaScript truthiness of an optional string: \<^verbatim>\<open>undefined\<close> and the empty
  string are falsy.\<close>

fun truthy :: "string option \<Rightarrow> bool" where
  "truthy None = False"
| "truthy (Some s) = (s \<noteq> [])"

text \<open>A possibly absent string as a logged or serialised value.\<close>

fun js :: "string option \<Rightarrow> jval" where
  "js None = JUndef"
| "js (Some s) = JStr s"

text \<open>\<^verbatim>\<open>JSON.stringify\<close> drops a key whose value is \<^verbatim>\<open>undefined\<close>.\<close>

fun opt_field :: "string \<Rightarrow> string option \<Rightarrow> (string \<times> jval) list" where
  "opt_field k None = []"
| "opt_field k (Some s) = [(k, JStr s)]"

text \<open>\<^verbatim>\<open>String.prototype.toLowerCase\<close>, on the ASCII letters (a \<^typ>\<open>char\<close> is a byte).\<close>

definition toLowerCase_char :: "char \<Rightarrow> char" where
  "toLowerCase_char c =
     (let n = (of_char c :: nat) in if 65 \<le> n \<and> n \<le> 90 then char_of (n + 32) else c)"

definition toLowerCase :: "string \<Rightarrow> string" where
  "toLowerCase s = map toLowerCase_char s"

text \<open>A user as the admin API lists it. \<^verbatim>\<open>user_metadata\<close> is an object or absent.\<close>

record user =
  user_id :: string
  email :: "string option"
  user_metadata :: "(string \<times> jval) list option"

text \<open>The decoded token the verifier answers with; the handlers read \<^verbatim>\<open>uid\<close> and
  \<^verbatim>\<open>email\<close>.\<close>

record claims =
  uid :: "string option"
  claims_email :: "string option"

definition claims_json :: "claims \<Rightarrow> jval" where
  "claims_json c = JObj (opt_field ''uid'' (uid c) @ opt_field ''email'' (claims_email c))"

text \<open>Optional chaining \<^verbatim>\<open>x?.k\<close>: \<^verbatim>\<open>undefined\<close> on a missing or null receiver and on
  a missing key; a primitive has no own keys.\<close>

fun get_field :: "string \<Rightarrow> jval option \<Rightarrow> jval option" where
  "get_field k (Some (JObj kvs)) = (case map_of kvs k of Some JUndef \<Rightarrow> None | r \<Rightarrow> r)"
| "get_field k _ = None"

definition metadata_fbuser_uid :: "user \<Rightarrow> jval option" where
  "metadata_fbuser_uid u =
     get_field ''uid'' (get_field ''fbuser'' (map_option JObj (user_metadata u)))"

text \<open>\<^verbatim>\<open>typeof\<close>, for the debug output.\<close>

fun typeof :: "jval option \<Rightarrow> string" where
  "typeof None = ''undefined''"
| "typeof (Some JUndef) = ''undefined''"
| "typeof (Some (JBool b)) = ''boolean''"
| "typeof (Some (JNum n)) = ''number''"
| "typeof (Some (JStr s)) = ''string''"
| "typeof (Some v) = ''object''"

fun jopt :: "jval option \<Rightarrow> jval" where
  "jopt None = JUndef"
| "jopt (Some v) = v"

text \<open>A string that is \<^verbatim>\<open>null\<close> when absent (an error of the auth API, a query
  parameter read with \<^verbatim>\<open>searchParams.get\<close>).\<close>

fun jnull :: "string option \<Rightarrow> jval" where
  "jnull None = JNull"
| "jnull (Some s) = JStr s"

text \<open>Truthiness of a metadata value.\<close>

fun truthy_j :: "jval option \<Rightarrow> bool" where
  "truthy_j None = False"
| "truthy_j (Some JUndef) = False"
| "truthy_j (Some JNull) = False"
| "truthy_j (Some (JBool b)) = b"
| "truthy_j (Some (JNum n)) = (n \<noteq> 0)"
| "truthy_j (Some (JStr s)) = (s \<noteq> [])"
| "truthy_j (Some v) = True"

section \<open>Events and responses\<close>

datatype level = LOG | WARN | ERROR

datatype call =
    FetchTokenVerify string
  | ListUsers
  | ListUsersPage nat
  | GenerateLink "string option"
  | UpdateUserMetadata string "(string \<times> jval) list"
  | VerifyOtp string string
  | SignInWithPassword string string
  | FetchPasswordVerify jval jval string
  | UpdateUserPassword string string

text \<open>A console line is its level, its first argument and the remaining arguments; a value
  interpolated into a template literal is listed with the arguments. Pictographs in the
  messages are left out.\<close>

datatype event = Console level string "jval list" | Call call

datatype resp_body = TextBody string | JsonBody "(string \<times> jval) list"

record response =
  status :: nat
  body :: resp_body

definition json_response :: "nat \<Rightarrow> (string \<times> jval) list \<Rightarrow> response" where
  "json_response st kvs = \<lparr>status = st, body = JsonBody kvs\<rparr>"

text \<open>What a run leaves behind: the trace so far and either the response or the exception
  in flight.\<close>

type_synonym 'a run = "event list \<times> 'a io"

definition emit :: "event list \<Rightarrow> 'a run \<Rightarrow> 'a run" where
  "emit evs r = (evs @ fst r, snd r)"

text \<open>A field of a JSON body.\<close>

fun body_field :: "string \<Rightarrow> resp_body \<Rightarrow> jval option" where
  "body_field k (TextBody t) = None"
| "body_field k (JsonBody kvs) = map_of kvs k"

section \<open>Identity resolution (\<^verbatim>\<open>users.find\<close> in exchange-firebase-session)\<close>

text \<open>\<^verbatim>\<open>u.user_metadata?.fbuser?.uid === firebaseUser.uid\<close>: strict equality of a
  metadata value with a string or \<^verbatim>\<open>undefined\<close>.\<close>

definition matchesUid :: "claims \<Rightarrow> user \<Rightarrow> bool" where
  "matchesUid c u =
     (case metadata_fbuser_uid u of
        None \<Rightarrow> uid c = None
      | Some (JStr s) \<Rightarrow> uid c = Some s
      | Some v \<Rightarrow> False)"

text \<open>\<^verbatim>\<open>firebaseUser.email && u.email?.toLowerCase() === firebaseUser.email.toLowerCase()\<close>\<close>

definition matchesEmail :: "claims \<Rightarrow> user \<Rightarrow> bool" where
  "matchesEmail c u =
     (case claims_email c of
        None \<Rightarrow> False
      | Some ce \<Rightarrow>
          ce \<noteq> [] \<and>
          (case email u of None \<Rightarrow> False | Some ue \<Rightarrow> toLowerCase ue = toLowerCase ce))"

text \<open>The comparison that only decides the debug line:
  \<^verbatim>\<open>u.email?.toLowerCase() === firebaseUser.email?.toLowerCase()\<close>.\<close>

definition emailLogMatch :: "claims \<Rightarrow> user \<Rightarrow> bool" where
  "emailLogMatch c u = (map_option toLowerCase (email u) = map_option toLowerCase (claims_email c))"

definition email_match_line :: "claims \<Rightarrow> user \<Rightarrow> event" where
  "email_match_line c u =
     Console LOG ''Email match found, checking UID:''
       [JObj [(''user_id'', JStr (user_id u)),
              (''user_email'', js (email u)),
              (''metadata_uid'', jopt (metadata_fbuser_uid u)),
              (''firebase_uid'', js (uid c)),
              (''uid_match'', JBool (matchesUid c u)),
              (''uid_types'', JObj [(''metadata_uid_type'', JStr (typeof (metadata_fbuser_uid u))),
                                   (''firebase_uid_type'', JStr (typeof (map_option JStr (uid c))))])]]"

text \<open>\<^verbatim>\<open>users.find(u => ...)\<close>: the callback runs on each record in order until it
  returns a truthy value; it logs for each visited record whose email compares equal.\<close>

fun find_user :: "claims \<Rightarrow> user list \<Rightarrow> event list \<times> user option" where
  "find_user c [] = ([], None)"
| "find_user c (u # us) =
     (let line = (if emailLogMatch c u then [email_match_line c u] else [])
      in if matchesUid c u \<or> matchesEmail c u then (line, Some u)
         else (line @ fst (find_user c us), snd (find_user c us)))"

text \<open>The match condition in the specification's words: the embedded source external id
  equals the claims subject id, or the stored email equals the claims email ignoring
  letter case.\<close>

definition emails_equal_ignoring_case :: "string option \<Rightarrow> string option \<Rightarrow> bool" where
  "emails_equal_ignoring_case stored claimed =
     (case stored of
        None \<Rightarrow> False
      | Some a \<Rightarrow> (case claimed of None \<Rightarrow> False | Some b \<Rightarrow> toLowerCase a = toLowerCase b))"

definition spec_match :: "claims \<Rightarrow> user \<Rightarrow> bool" where
  "spec_match c u = (matchesUid c u \<or> emails_equal_ignoring_case (email u) (claims_email c))"

text \<open>The same condition with the guard of the code: an absent or empty claims email
  matches no record by email.\<close>

definition guarded_match :: "claims \<Rightarrow> user \<Rightarrow> bool" where
  "guarded_match c u =
     (matchesUid c u \<or>
      (truthy (claims_email c) \<and> emails_equal_ignoring_case (email u) (claims_email c)))"

text \<open>The user-metadata object both update calls send:
  \<^verbatim>\<open>{ ...user.user_metadata, last_firebase_session_exchange: new Date().toISOString() }\<close>.
  Spreading \<^verbatim>\<open>undefined\<close> adds no key; a key already present keeps its place and takes
  the new value.\<close>

definition exchange_metadata :: "user \<Rightarrow> string \<Rightarrow> (string \<times> jval) list" where
  "exchange_metadata u now =
     AList.update ''last_firebase_session_exchange'' (JStr now)
       (case user_metadata u of None \<Rightarrow> [] | Some kvs \<Rightarrow> kvs)"

section \<open>exchange-firebase-session, the magic-link variant\<close>

text \<open>The answers of the collaborators during one request.\<close>

text \<open>The verifier's HTTP answer. The handlers read \<^verbatim>\<open>ok\<close> (a status from 200 to
  299) and the body.\<close>

record verify_response =
  http_status :: nat
  text_body :: "string io"
  json_body :: "claims io"

definition ok :: "verify_response \<Rightarrow> bool" where
  "ok r = (200 \<le> http_status r \<and> http_status r \<le> 299)"

record list_result =
  users :: "user list"
  list_error :: "string option"

text \<open>The generated link: its text, and its query parameters as \<^verbatim>\<open>new URL(...)\<close> reads
  them (the constructor throws on a string that is no URL).\<close>

record link =
  action_link :: string
  search_params :: "(string \<times> string) list io"

record link_result =
  token_data :: "link option"
  token_error :: "string option"

record exchange_env =
  req_method :: string
  req_json :: "string option io"
  verify_fetch :: "verify_response io"
  list_users :: "list_result io"
  generate_link :: "link_result io"
  update_user :: "string option io"
  now :: string

text \<open>The first three users, printed with their position.\<close>

fun debug_users :: "nat \<Rightarrow> user list \<Rightarrow> event list" where
  "debug_users i [] = []"
| "debug_users i (u # us) =
     Console LOG ''User ${i + 1}:''
       [JNum (int (i + 1)),
        JObj [(''id'', JStr (user_id u)),
              (''email'', js (email u)),
              (''full_user_metadata'', jopt (map_option JObj (user_metadata u))),
              (''metadata_fbuser_uid'', jopt (metadata_fbuser_uid u)),
              (''has_fbuser'',
                 JBool (truthy_j (get_field ''fbuser'' (map_option JObj (user_metadata u)))))]]
     # debug_users (i + 1) us"

definition mismatch_line :: "claims \<Rightarrow> user \<Rightarrow> event" where
  "mismatch_line c u =
     Console LOG ''  - Email match but UID mismatch:''
       [JObj [(''email'', js (email u)),
              (''supabase_fbuser_uid'', jopt (metadata_fbuser_uid u)),
              (''firebase_uid'', js (uid c)),
              (''match'', JBool (matchesUid c u))]]"

text \<open>Lines 136 to 173: no record matched.\<close>

definition user_not_found :: "claims \<Rightarrow> user list \<Rightarrow> response run" where
  "user_not_found c us =
     (let emailMatches = filter (emailLogMatch c) us
      in ([Console LOG ''User not found in Supabase'' [],
           Console LOG ''Searched for:''
             [JObj [(''firebase_uid'', js (uid c)), (''firebase_email'', js (claims_email c))]],
           Console LOG ''Users with matching email:'' [JNum (int (length emailMatches))]]
          @ map (mismatch_line c) emailMatches,
          Returns (json_response 404
            [(''error'', JStr ''User not found''),
             (''hint'', JStr ''This user may not have been migrated to Supabase yet''),
             (''debug'', JObj [(''searched_for'', JObj (opt_field ''uid'' (uid c) @ opt_field ''email'' (claims_email c))),
                              (''total_users'', JNum (int (length us)))])])))"

definition user_json :: "user \<Rightarrow> jval" where
  "user_json u = JObj ((''id'', JStr (user_id u)) # opt_field ''email'' (email u))"

text \<open>Lines 187 to 228: the link could not be generated. The handler records the exchange
  on the user and answers 200 without tokens; only an exception inside the
  \<^verbatim>\<open>try\<close> gives 500.\<close>

definition link_fallback :: "exchange_env \<Rightarrow> user \<Rightarrow> string option \<Rightarrow> response run" where
  "link_fallback e u tokenError =
     emit [Console ERROR ''Error generating auth link:'' [jnull tokenError],
           Call (UpdateUserMetadata (user_id u) (exchange_metadata u (now e)))]
       (case update_user e of
          Throws fallbackError \<Rightarrow>
            ([Console ERROR ''Fallback failed:'' [JStr fallbackError]],
             Returns (json_response 500
               ((''error'', JStr ''Failed to exchange session'') # opt_field ''details'' tokenError)))
        | Returns updateError \<Rightarrow>
            ((if updateError \<noteq> None
              then [Console ERROR ''Error updating user metadata:'' [jnull updateError]] else []),
             Returns (json_response 200
               [(''user'', user_json u),
                (''exchanged'', JBool True),
                (''message'', JStr ''Firebase session validated. Please sign in with Supabase to complete exchange.''),
                (''hint'', JStr ''Use the migrated password or OAuth'')])))"

text \<open>Lines 245 to 259: the tracking write. Its result is dropped; only an exception
  reaches the \<^verbatim>\<open>catch\<close>.\<close>

definition track_exchange :: "exchange_env \<Rightarrow> user \<Rightarrow> event list" where
  "track_exchange e u =
     Call (UpdateUserMetadata (user_id u) (exchange_metadata u (now e))) #
     (case update_user e of
        Throws trackError \<Rightarrow>
          [Console WARN ''Failed to track session exchange (non-critical):'' [JStr trackError]]
      | Returns r \<Rightarrow>
          [Console LOG ''Tracked session exchange for user:'' [JStr (user_id u)]])"

text \<open>Lines 230 to 274: the tokens are read from the link's query parameters.\<close>

definition link_session :: "exchange_env \<Rightarrow> user \<Rightarrow> link \<Rightarrow> response run" where
  "link_session e u tokenData =
     (case search_params tokenData of
        Throws m \<Rightarrow> ([], Throws m)
      | Returns urlParams \<Rightarrow>
          (let accessToken = map_of urlParams ''access_token'';
               refreshToken = map_of urlParams ''refresh_token''
           in if \<not> truthy accessToken \<or> \<not> truthy refreshToken
              then ([Console ERROR ''Failed to extract tokens from magic link'' []],
                    Returns (json_response 500 [(''error'', JStr ''Failed to generate session tokens'')]))
              else (Console LOG ''Session exchange successful!'' [] # track_exchange e u,
                    Returns (json_response 200
                      [(''access_token'', js accessToken),
                       (''refresh_token'', js refreshToken),
                       (''user'', user_json u),
                       (''exchanged'', JBool True),
                       (''message'', JStr ''Firebase session successfully exchanged for Supabase session'')]))))"

text \<open>Lines 175 to 228: the magic link is requested for the user's email.\<close>

definition mint_session :: "exchange_env \<Rightarrow> user \<Rightarrow> response run" where
  "mint_session e u =
     emit [Console LOG ''Found Supabase user:'' [JStr (user_id u)], Call (GenerateLink (email u))]
       (case generate_link e of
          Throws m \<Rightarrow> ([], Throws m)
        | Returns r \<Rightarrow>
            (case token_data r of
               None \<Rightarrow> link_fallback e u (token_error r)
             | Some tokenData \<Rightarrow>
                 if token_error r \<noteq> None then link_fallback e u (token_error r)
                 else link_session e u tokenData))"

text \<open>Lines 76 to 173: the users are listed once, without a page argument, and searched.
  An exception while the admin client is built is an exception of the listing.\<close>

definition resolve_user :: "exchange_env \<Rightarrow> claims \<Rightarrow> response run" where
  "resolve_user e firebaseUser =
     emit [Call ListUsers]
       (case list_users e of
          Throws m \<Rightarrow> ([], Throws m)
        | Returns r \<Rightarrow>
            (case list_error r of
               Some listError \<Rightarrow>
                 ([Console ERROR ''Error listing users:'' [JStr listError]],
                  Returns (json_response 500
                    [(''error'', JStr ''Failed to find user''), (''details'', JStr listError)]))
             | None \<Rightarrow>
                 emit ([Console LOG ''Found ${users.length} users in Supabase'' [JNum (int (length (users r)))],
                        Console LOG ''Looking for Firebase UID:'' [js (uid firebaseUser)],
                        Console LOG ''Looking for email:'' [js (claims_email firebaseUser)]]
                       @ debug_users 0 (take 3 (users r))
                       @ fst (find_user firebaseUser (users r)))
                   (case snd (find_user firebaseUser (users r)) of
                      None \<Rightarrow> user_not_found firebaseUser (users r)
                    | Some u \<Rightarrow> mint_session e u)))"

text \<open>Lines 30 to 74. The verifier's URL is a non-empty literal, so the branch for a missing
  URL is never taken.\<close>

definition verify_token :: "exchange_env \<Rightarrow> response run" where
  "verify_token e =
     (case req_json e of
        Throws m \<Rightarrow> ([], Throws m)
      | Returns firebaseToken \<Rightarrow>
          if \<not> truthy firebaseToken
          then ([], Returns (json_response 400 [(''error'', JStr ''Firebase token is required'')]))
          else emit [Console LOG ''Validating Firebase token...'' [],
                     Call (FetchTokenVerify (case firebaseToken of None \<Rightarrow> [] | Some t \<Rightarrow> t))]
            (case verify_fetch e of
               Throws m \<Rightarrow> ([], Throws m)
             | Returns verifyResponse \<Rightarrow>
                 if \<not> ok verifyResponse
                 then (case text_body verifyResponse of
                         Throws m \<Rightarrow> ([], Throws m)
                       | Returns errorText \<Rightarrow>
                           ([Console ERROR ''Firebase token verification failed:'' [JStr errorText]],
                            Returns (json_response 401
                              [(''error'', JStr ''Invalid or expired Firebase token'')])))
                 else (case json_body verifyResponse of
                         Throws m \<Rightarrow> ([], Throws m)
                       | Returns firebaseUser \<Rightarrow>
                           emit [Console LOG ''Firebase token valid for user:'' [js (uid firebaseUser)],
                                 Console LOG ''Firebase user email:'' [js (claims_email firebaseUser)],
                                 Console LOG ''Full Firebase user data:'' [claims_json firebaseUser]]
                             (resolve_user e firebaseUser))))"

text \<open>The outer \<^verbatim>\<open>try\<close>/\<^verbatim>\<open>catch\<close>: an exception becomes a logged 500.\<close>

definition catch_unexpected :: "string \<Rightarrow> response run \<Rightarrow> event list \<times> response" where
  "catch_unexpected label r =
     (case snd r of
        Returns resp \<Rightarrow> (fst r, resp)
      | Throws m \<Rightarrow>
          (fst r @ [Console ERROR ''Unexpected error:'' [JStr m]],
           json_response 500 [(''error'', JStr label), (''details'', JStr m)]))"

definition exchange_firebase_session :: "exchange_env \<Rightarrow> event list \<times> response" where
  "exchange_firebase_session e =
     (if req_method e = ''OPTIONS'' then ([], \<lparr>status = 200, body = TextBody ''ok''\<rparr>)
      else catch_unexpected ''Internal server error'' (verify_token e))"

section \<open>exchange-firebase-session, the verifyOtp variant\<close>

record session =
  access_token :: string
  refresh_token :: string
  expires_in :: int
  expires_at :: int

record otp_result =
  otp_session :: "session option"
  otp_user :: "user option"
  session_error :: "string option"

record otp_env =
  otp_req_method :: string
  otp_req_json :: "string option io"
  otp_verify_fetch :: "verify_response io"
  list_users_page :: "nat \<Rightarrow> list_result io"
  otp_generate_link :: "link_result io"
  verify_otp :: "otp_result io"

text \<open>\<^verbatim>\<open>u.email?.toLowerCase() === email.toLowerCase()\<close> for a string \<^verbatim>\<open>email\<close>.\<close>

definition email_is :: "string \<Rightarrow> user \<Rightarrow> bool" where
  "email_is e u = (case email u of None \<Rightarrow> False | Some ue \<Rightarrow> toLowerCase ue = toLowerCase e)"

text \<open>\<^verbatim>\<open>findUserByEmail\<close>: pages of 1000, at most ten of them; a listing error is
  thrown.\<close>

function findUserByEmail :: "(nat \<Rightarrow> list_result io) \<Rightarrow> string \<Rightarrow> nat \<Rightarrow> user option run" where
  "findUserByEmail listPage e page =
     (if page \<le> 10
      then emit [Call (ListUsersPage page)]
        (case listPage page of
           Throws m \<Rightarrow> ([], Throws m)
         | Returns r \<Rightarrow>
             (case list_error r of
                Some err \<Rightarrow> ([], Throws err)
              | None \<Rightarrow>
                  (case List.find (email_is e) (users r) of
                     Some u \<Rightarrow> ([], Returns (Some u))
                   | None \<Rightarrow>
                       if length (users r) < 1000 then ([], Returns None)
                       else findUserByEmail listPage e (page + 1))))
      else ([], Returns None))"
  by pat_completeness auto
termination
  by (relation "measure (\<lambda>(listPage, e, page). 11 - page)") auto

definition entries_json :: "(string \<times> string) list \<Rightarrow> jval" where
  "entries_json kvs = JArr (map (\<lambda>kv. JArr [JStr (fst kv), JStr (snd kv)]) kvs)"

text \<open>Lines 146 to 187: the token is redeemed with \<^verbatim>\<open>verifyOtp\<close>.\<close>

definition redeem_token :: "otp_env \<Rightarrow> string option \<Rightarrow> string option \<Rightarrow> string option \<Rightarrow> response run" where
  "redeem_token e tokenHash token type =
     emit [Console LOG ''Got token, verifying OTP...'' [],
           Call (VerifyOtp (case type of None \<Rightarrow> ''magiclink''
                            | Some t \<Rightarrow> if t = [] then ''magiclink'' else t)
                           (case (if truthy tokenHash then tokenHash else token) of
                              None \<Rightarrow> [] | Some t \<Rightarrow> t))]
       (case verify_otp e of
          Throws m \<Rightarrow> ([], Throws m)
        | Returns r \<Rightarrow>
            (case otp_session r of
               None \<Rightarrow>
                 ([Console ERROR ''Session creation failed:'' [jnull (session_error r)]],
                  Returns (json_response 500
                    ((''error'', JStr ''Failed to create session'') # opt_field ''details'' (session_error r))))
             | Some s \<Rightarrow>
                 if session_error r \<noteq> None
                 then ([Console ERROR ''Session creation failed:'' [jnull (session_error r)]],
                       Returns (json_response 500
                         ((''error'', JStr ''Failed to create session'') # opt_field ''details'' (session_error r))))
                 else (case otp_user r of
                         None \<Rightarrow> ([Console LOG ''Session created successfully'' []],
                                  Throws ''Cannot read properties of null (reading id)'')
                       | Some su \<Rightarrow>
                           ([Console LOG ''Session created successfully'' []],
                            Returns (json_response 200
                              [(''access_token'', JStr (access_token s)),
                               (''refresh_token'', JStr (refresh_token s)),
                               (''expires_in'', JNum (expires_in s)),
                               (''expires_at'', JNum (expires_at s)),
                               (''user'', user_json su)])))))"

text \<open>Lines 114 to 145: the link is printed, parsed, and its parameters are printed.\<close>

definition extract_token :: "otp_env \<Rightarrow> link \<Rightarrow> response run" where
  "extract_token e otpData =
     emit [Console LOG ''Full action link:'' [JStr (action_link otpData)]]
       (case search_params otpData of
          Throws m \<Rightarrow> ([], Throws m)
        | Returns params \<Rightarrow>
            (let tokenHash = map_of params ''token_hash'';
                 token = map_of params ''token'';
                 type = map_of params ''type''
             in emit [Console LOG ''URL params:''
                        [JObj [(''token_hash'', jnull tokenHash), (''token'', jnull token),
                               (''type'', jnull type)]]]
                  (if \<not> truthy tokenHash \<and> \<not> truthy token
                   then ([Console ERROR ''No token found in magic link'' [],
                          Console ERROR ''All params:'' [entries_json params]],
                         Returns (json_response 500
                           [(''error'', JStr ''Failed to extract token from magic link''),
                            (''debug'', JObj [(''has_token_hash'', JBool (truthy tokenHash)),
                                             (''has_token'', JBool (truthy token)),
                                             (''all_params'', entries_json params)])]))
                   else redeem_token e tokenHash token type)))"

text \<open>Lines 75 to 113: the user is looked up by the token's email and a link is requested.\<close>

definition otp_find_and_link :: "otp_env \<Rightarrow> string \<Rightarrow> response run" where
  "otp_find_and_link e fbEmail =
     (let found = findUserByEmail (list_users_page e) fbEmail 1
      in emit (fst found)
        (case snd found of
           Throws m \<Rightarrow> ([], Throws m)
         | Returns None \<Rightarrow>
             ([], Returns (json_response 404
                    [(''error'', JStr ''User not found''), (''email'', JStr fbEmail)]))
         | Returns (Some u) \<Rightarrow>
             emit [Console LOG ''Found user:'' [JStr (user_id u)], Call (GenerateLink (email u))]
               (case otp_generate_link e of
                  Throws m \<Rightarrow> ([], Throws m)
                | Returns r \<Rightarrow>
                    (case token_data r of
                       None \<Rightarrow>
                         ([Console ERROR ''OTP generation failed:'' [jnull (token_error r)]],
                          Returns (json_response 500
                            ((''error'', JStr ''Failed to generate session'') # opt_field ''details'' (token_error r))))
                     | Some otpData \<Rightarrow>
                         if token_error r \<noteq> None
                         then ([Console ERROR ''OTP generation failed:'' [jnull (token_error r)]],
                               Returns (json_response 500
                                 ((''error'', JStr ''Failed to generate session'') # opt_field ''details'' (token_error r))))
                         else extract_token e otpData))))"

text \<open>Lines 30 to 74.\<close>

definition otp_verify_token :: "otp_env \<Rightarrow> response run" where
  "otp_verify_token e =
     (case otp_req_json e of
        Throws m \<Rightarrow> ([], Throws m)
      | Returns firebaseToken \<Rightarrow>
          if \<not> truthy firebaseToken
          then ([], Returns (json_response 400 [(''error'', JStr ''Firebase token required'')]))
          else emit [Call (FetchTokenVerify (case firebaseToken of None \<Rightarrow> [] | Some t \<Rightarrow> t))]
            (case otp_verify_fetch e of
               Throws m \<Rightarrow> ([], Throws m)
             | Returns verifyResp \<Rightarrow>
                 if \<not> ok verifyResp
                 then ([], Returns (json_response 401 [(''error'', JStr ''Invalid Firebase token'')]))
                 else (case json_body verifyResp of
                         Throws m \<Rightarrow> ([], Throws m)
                       | Returns fbUser \<Rightarrow>
                           (case claims_email fbUser of
                              None \<Rightarrow> ([], Returns (json_response 400 [(''error'', JStr ''No email in token'')]))
                            | Some fbEmail \<Rightarrow>
                                if fbEmail = []
                                then ([], Returns (json_response 400 [(''error'', JStr ''No email in token'')]))
                                else otp_find_and_link e fbEmail))))"

definition exchange_firebase_session_otp :: "otp_env \<Rightarrow> event list \<times> response" where
  "exchange_firebase_session_otp e =
     (if otp_req_method e = ''OPTIONS'' then ([], \<lparr>status = 200, body = TextBody ''ok''\<rparr>)
      else catch_unexpected ''Internal error'' (otp_verify_token e))"

section \<open>migrate-firebase-password\<close>

text \<open>The handler threads the state of the user store through its calls. The store and
  the password verifier are parameters: each operation answers from the state it is
  given, and the password update also returns the state it leaves.\<close>

record login_result =
  login_session :: "session option"
  login_error :: "string option"

record 'st migrate_env =
  signInWithPassword :: "'st \<Rightarrow> string \<Rightarrow> string \<Rightarrow> login_result io"
  listUsers :: "'st \<Rightarrow> list_result io"
  updateUserById :: "'st \<Rightarrow> string \<Rightarrow> string \<Rightarrow> string option io \<times> 'st"
  FIREBASE_PW_VERIFY_URL :: "string option"
  fetch_pw_verify :: "jval \<Rightarrow> jval \<Rightarrow> string \<Rightarrow> string io"

record migrate_request =
  m_method :: string
  m_json :: "(string option \<times> string option) io"

definition session_json :: "session \<Rightarrow> jval" where
  "session_json s =
     JObj [(''access_token'', JStr (access_token s)),
           (''refresh_token'', JStr (refresh_token s)),
           (''expires_in'', JNum (expires_in s)),
           (''expires_at'', JNum (expires_at s))]"

text \<open>The two 401 answers of the handler.\<close>

definition no_source_password_response :: response where
  "no_source_password_response =
     json_response 401
       [(''error'', JStr ''Invalid credentials''),
        (''hint'', JStr ''This account may use OAuth (Google/Apple). Try signing in with your social account.'')]"

definition credential_mismatch_response :: response where
  "credential_mismatch_response = json_response 401 [(''error'', JStr ''Invalid credentials'')]"

text \<open>Lines 258 to 296: the password is written, then the login is repeated.\<close>

definition migrate_and_login ::
  "'st migrate_env \<Rightarrow> 'st \<Rightarrow> user \<Rightarrow> string \<Rightarrow> string \<Rightarrow> response run \<times> 'st" where
  "migrate_and_login env st u e password =
     (let upd = updateUserById env st (user_id u) password; st' = snd upd
      in (emit [Console LOG ''Firebase password verified! Migrating to Supabase...'' [],
                Call (UpdateUserPassword (user_id u) password)]
            (case fst upd of
               Throws m \<Rightarrow> ([], Throws m)
             | Returns (Some updateError) \<Rightarrow>
                 ([Console ERROR ''Error updating password:'' [JStr updateError]],
                  Returns (json_response 500
                    [(''error'', JStr ''Failed to migrate password''), (''details'', JStr updateError)]))
             | Returns None \<Rightarrow>
                 emit [Console LOG ''Password migrated successfully!'' [],
                       Call (SignInWithPassword e password)]
                   (case signInWithPassword env st' e password of
                      Throws m \<Rightarrow> ([], Throws m)
                    | Returns newLogin \<Rightarrow>
                        (case login_session newLogin of
                           None \<Rightarrow>
                             ([Console ERROR ''Error signing in after migration:'' [jnull (login_error newLogin)]],
                              Returns (json_response 500
                                ((''error'', JStr ''Password migrated but login failed'')
                                 # opt_field ''details'' (login_error newLogin))))
                         | Some s \<Rightarrow>
                             if login_error newLogin \<noteq> None
                             then ([Console ERROR ''Error signing in after migration:'' [jnull (login_error newLogin)]],
                                   Returns (json_response 500
                                     ((''error'', JStr ''Password migrated but login failed'')
                                      # opt_field ''details'' (login_error newLogin))))
                             else ([], Returns (json_response 200
                                     [(''session'', session_json s),
                                      (''migrated'', JBool True),
                                      (''message'', JStr ''Password successfully migrated and logged in'')]))))),
          st'))"

text \<open>Lines 206 to 256: the stored hash and salt are checked with the password verifier;
  only the body \<^verbatim>\<open>valid\<close> counts as a confirmation.\<close>

definition verify_firebase_password ::
  "'st migrate_env \<Rightarrow> 'st \<Rightarrow> user \<Rightarrow> string \<Rightarrow> string \<Rightarrow> response run \<times> 'st" where
  "verify_firebase_password env st u e password =
     (let fbUser = get_field ''fbuser'' (map_option JObj (user_metadata u));
          passwordHash = get_field ''passwordHash'' fbUser;
          passwordSalt = get_field ''passwordSalt'' fbUser;
          sent = [Console LOG ''Verifying Firebase password...'' [],
                  Call (FetchPasswordVerify (jopt passwordSalt) (jopt passwordHash) password)]
      in if \<not> truthy_j passwordHash \<or> \<not> truthy_j passwordSalt
         then (([], Returns no_source_password_response), st)
         else if \<not> truthy (FIREBASE_PW_VERIFY_URL env)
         then (([Console ERROR ''FIREBASE_PW_VERIFY_URL not configured'' []],
                Returns (json_response 500 [(''error'', JStr ''Password verification service not configured'')])),
               st)
         else (case fetch_pw_verify env (jopt passwordSalt) (jopt passwordHash) password of
                 Throws m \<Rightarrow> ((sent, Throws m), st)
               | Returns verifyResult \<Rightarrow>
                   if verifyResult \<noteq> ''valid''
                   then ((sent, Returns credential_mismatch_response), st)
                   else (emit sent (fst (migrate_and_login env st u e password)),
                         snd (migrate_and_login env st u e password))))"

text \<open>Lines 186 to 204: the user is looked up by email in one unpaged listing.\<close>

definition lookup_and_verify ::
  "'st migrate_env \<Rightarrow> 'st \<Rightarrow> string \<Rightarrow> string \<Rightarrow> response run \<times> 'st" where
  "lookup_and_verify env st e password =
     (case listUsers env st of
        Throws m \<Rightarrow> (([], Throws m), st)
      | Returns r \<Rightarrow>
          (case list_error r of
             Some userError \<Rightarrow>
               (([Console ERROR ''Error listing users:'' [JStr userError]],
                 Returns (json_response 401
                   [(''error'', JStr ''Authentication failed''), (''details'', JStr userError)])), st)
           | None \<Rightarrow>
               (case List.find (email_is e) (users r) of
                  None \<Rightarrow> (([], Returns (json_response 404 [(''error'', JStr ''User not found'')])), st)
                | Some u \<Rightarrow> verify_firebase_password env st u e password)))"

text \<open>Lines 139 to 185: the native login is tried first.\<close>

definition native_login_first ::
  "'st migrate_env \<Rightarrow> 'st \<Rightarrow> string \<Rightarrow> string \<Rightarrow> response run \<times> 'st" where
  "native_login_first env st e password =
     (case signInWithPassword env st e password of
        Throws m \<Rightarrow> (([Call (SignInWithPassword e password)], Throws m), st)
      | Returns loginData \<Rightarrow>
          (case login_session loginData of
             Some s \<Rightarrow>
               (([Call (SignInWithPassword e password)],
                 Returns (json_response 200
                   [(''session'', session_json s),
                    (''migrated'', JBool False),
                    (''message'', JStr ''Login successful'')])), st)
           | None \<Rightarrow>
               (emit [Call (SignInWithPassword e password),
                      Console LOG ''Login failed, checking for Firebase password migration...'' [],
                      Call ListUsers]
                  (fst (lookup_and_verify env st e password)),
                snd (lookup_and_verify env st e password))))"

definition login_or_migrate ::
  "'st migrate_env \<Rightarrow> 'st \<Rightarrow> migrate_request \<Rightarrow> response run \<times> 'st" where
  "login_or_migrate env st req =
     (case m_json req of
        Throws m \<Rightarrow> (([], Throws m), st)
      | Returns given \<Rightarrow>
          if \<not> truthy (fst given) \<or> \<not> truthy (snd given)
          then (([], Returns (json_response 400 [(''error'', JStr ''Email and password are required'')])), st)
          else native_login_first env st
                 (case fst given of None \<Rightarrow> [] | Some x \<Rightarrow> x)
                 (case snd given of None \<Rightarrow> [] | Some x \<Rightarrow> x))"

definition migrate_firebase_password ::
  "'st migrate_env \<Rightarrow> 'st \<Rightarrow> migrate_request \<Rightarrow> (event list \<times> response) \<times> 'st" where
  "migrate_firebase_password env st req =
     (if m_method req = ''OPTIONS'' then (([], \<lparr>status = 200, body = TextBody ''ok''\<rparr>), st)
      else (let r = login_or_migrate env st req
            in (catch_unexpected ''Internal server error'' (fst r), snd r)))"

section \<open>The user store the password migration runs against\<close>

text \<open>Modelled from the spec: the target user store is an external service (the Supabase
  auth API) with no source in the repository. Section 6 of the specification gives its
  operations: a native password-based login, a paginated listing, and an update that sets
  the native password. A record has a native password once it is migrated.\<close>

record store =
  store_users :: "user list"
  native_passwords :: "(string \<times> string) list"
  page_size :: nat

definition session_for :: "user \<Rightarrow> session" where
  "session_for u =
     \<lparr>access_token = ''access:'' @ user_id u, refresh_token = ''refresh:'' @ user_id u,
      expires_in = 3600, expires_at = 0\<rparr>"

definition invalid_login :: login_result where
  "invalid_login = \<lparr>login_session = None, login_error = Some ''Invalid login credentials''\<rparr>"

text \<open>Modelled from the spec: native login succeeds when the record with this email has
  this native password.\<close>

definition store_sign_in :: "store \<Rightarrow> string \<Rightarrow> string \<Rightarrow> login_result io" where
  "store_sign_in st e p =
     Returns (case List.find (email_is e) (store_users st) of
                None \<Rightarrow> invalid_login
              | Some u \<Rightarrow>
                  if map_of (native_passwords st) (user_id u) = Some p
                  then \<lparr>login_session = Some (session_for u), login_error = None\<rparr>
                  else invalid_login)"

text \<open>Modelled from the spec: a listing without a page argument answers the first page.\<close>

definition store_list :: "store \<Rightarrow> list_result io" where
  "store_list st = Returns \<lparr>users = take (page_size st) (store_users st), list_error = None\<rparr>"

text \<open>Modelled from the spec: the update sets the native password of the record.\<close>

definition store_update :: "store \<Rightarrow> string \<Rightarrow> string \<Rightarrow> string option io \<times> store" where
  "store_update st i p =
     (Returns None, st\<lparr>native_passwords := AList.update i p (native_passwords st)\<rparr>)"

definition supabase_env :: "string option \<Rightarrow> (jval \<Rightarrow> jval \<Rightarrow> string \<Rightarrow> string io) \<Rightarrow> store migrate_env" where
  "supabase_env url verifier =
     \<lparr>signInWithPassword = store_sign_in, listUsers = store_list, updateUserById = store_update,
      FIREBASE_PW_VERIFY_URL = url, fetch_pw_verify = verifier\<rparr>"

section \<open>Concrete requests\<close>

text \<open>A password user imported with her source hash and salt, and the verifier's answer
  for her token.\<close>

definition alice :: user where
  "alice = \<lparr>user_id = ''u-1'', email = Some ''a@x.com'',
     user_metadata = Some [(''fbuser'', JObj [(''uid'', JStr ''U1''), (''passwordHash'', JStr ''h1''),
        (''passwordSalt'', JStr ''s1'')]), (''name'', JStr ''Alice'')]\<rparr>"

definition verified_alice :: verify_response where
  "verified_alice = \<lparr>http_status = 200, text_body = Returns ''{}'',
     json_body = Returns \<lparr>uid = Some ''U1'', claims_email = Some ''a@x.com''\<rparr>\<rparr>"

text \<open>Scenario 1 of the specification: the stored email differs in letter case, and the
  record carries another external id.\<close>

definition alice_upper :: user where
  "alice_upper = \<lparr>user_id = ''u-2'', email = Some ''A@X.com'',
     user_metadata = Some [(''fbuser'', JObj [(''uid'', JStr ''U7'')])]\<rparr>"

definition bob :: user where
  "bob = \<lparr>user_id = ''u-3'', email = Some ''b@x.com'',
     user_metadata = Some [(''fbuser'', JObj [(''uid'', JStr ''U3'')])]\<rparr>"

definition claims_alice :: claims where
  "claims_alice = \<lparr>uid = Some ''U1'', claims_email = Some ''a@x.com''\<rparr>"

text \<open>Claims and a record whose emails are both the empty string, with different ids.\<close>

definition claims_empty_email :: claims where
  "claims_empty_email = \<lparr>uid = Some ''U1'', claims_email = Some []\<rparr>"

definition user_empty_email :: user where
  "user_empty_email = \<lparr>user_id = ''u-9'', email = Some [],
     user_metadata = Some [(''fbuser'', JObj [(''uid'', JStr ''U2'')])]\<rparr>"

text \<open>The link cannot be generated.\<close>

definition env_link_fails :: exchange_env where
  "env_link_fails = \<lparr>req_method = ''POST'', req_json = Returns (Some ''tok''),
     verify_fetch = Returns verified_alice,
     list_users = Returns \<lparr>users = [alice], list_error = None\<rparr>,
     generate_link = Returns \<lparr>token_data = None, token_error = Some ''rate limit''\<rparr>,
     update_user = Returns None, now = ''2025-11-10T00:00:00.000Z''\<rparr>"

text \<open>The link carries both tokens and the tracking update resolves with an error.\<close>

definition env_track_error :: exchange_env where
  "env_track_error = \<lparr>req_method = ''POST'', req_json = Returns (Some ''tok''),
     verify_fetch = Returns verified_alice,
     list_users = Returns \<lparr>users = [alice], list_error = None\<rparr>,
     generate_link = Returns \<lparr>token_data = Some \<lparr>action_link = ''https://p.supabase.co/auth/v1/verify?access_token=AT&refresh_token=RT'',
        search_params = Returns [(''access_token'', ''AT''), (''refresh_token'', ''RT'')]\<rparr>, token_error = None\<rparr>,
     update_user = Returns (Some ''update failed''), now = ''2025-11-10T00:00:00.000Z''\<rparr>"

text \<open>A console line that reports a failure.\<close>

fun is_failure_line :: "event \<Rightarrow> bool" where
  "is_failure_line (Console WARN m a) = True"
| "is_failure_line (Console ERROR m a) = True"
| "is_failure_line ev = False"

text \<open>The stored source hash and salt, as the migration handler reads them.\<close>

definition fbuser_passwordHash :: "user \<Rightarrow> jval option" where
  "fbuser_passwordHash u = get_field ''passwordHash'' (get_field ''fbuser'' (map_option JObj (user_metadata u)))"

definition fbuser_passwordSalt :: "user \<Rightarrow> jval option" where
  "fbuser_passwordSalt u = get_field ''passwordSalt'' (get_field ''fbuser'' (map_option JObj (user_metadata u)))"

text \<open>The collaborator calls of a trace.\<close>

fun is_call :: "event \<Rightarrow> bool" where
  "is_call (Call c) = True"
| "is_call ev = False"

text \<open>What the migration handler has traced when the native login gave no session.\<close>

definition login_failed_prefix :: "string \<Rightarrow> string \<Rightarrow> event list" where
  "login_failed_prefix e p =
     [Call (SignInWithPassword e p),
      Console LOG ''Login failed, checking for Firebase password migration...'' [],
      Call ListUsers]"

text \<open>The token verifier answers 503.\<close>

definition verifier_down :: verify_response where
  "verifier_down = \<lparr>http_status = 503, text_body = Returns ''Service Unavailable'',
     json_body = Throws ''Unexpected token S in JSON''\<rparr>"

definition env_verifier_down :: exchange_env where
  "env_verifier_down = env_link_fails\<lparr>verify_fetch := Returns verifier_down\<rparr>"

text \<open>The verifyOtp variant: the link is generated and its redemption fails.\<close>

definition magic_link :: link where
  "magic_link = \<lparr>action_link = ''https://p.supabase.co/auth/v1/verify?token=abc123&type=magiclink'',
     search_params = Returns [(''token'', ''abc123''), (''type'', ''magiclink'')]\<rparr>"

definition otp_env_redeem_fails :: otp_env where
  "otp_env_redeem_fails = \<lparr>otp_req_method = ''POST'', otp_req_json = Returns (Some ''tok''),
     otp_verify_fetch = Returns verified_alice,
     list_users_page = (\<lambda>page. Returns \<lparr>users = [alice], list_error = None\<rparr>),
     otp_generate_link = Returns \<lparr>token_data = Some magic_link, token_error = None\<rparr>,
     verify_otp = Throws ''network error''\<rparr>"

definition otp_env_verifier_down :: otp_env where
  "otp_env_verifier_down = otp_env_redeem_fails\<lparr>otp_verify_fetch := Returns verifier_down\<rparr>"

text \<open>A store with two password users and none migrated, and one with an OAuth-only
  user.\<close>

definition store0 :: store where
  "store0 = \<lparr>store_users = [bob, alice], native_passwords = [], page_size = 50\<rparr>"

definition oauth_user :: user where
  "oauth_user = \<lparr>user_id = ''u-4'', email = Some ''d@x.com'',
     user_metadata = Some [(''fbuser'', JObj [(''uid'', JStr ''U4'')])]\<rparr>"

definition store_oauth :: store where
  "store_oauth = \<lparr>store_users = [oauth_user], native_passwords = [], page_size = 50\<rparr>"

text \<open>A password verifier that confirms exactly the password ``correct''.\<close>

definition verifier0 :: "jval \<Rightarrow> jval \<Rightarrow> string \<Rightarrow> string io" where
  "verifier0 salt hash p = Returns (if p = ''correct'' then ''valid'' else ''invalid'')"

definition env0 :: "store migrate_env" where
  "env0 = supabase_env (Some ''https://pw-verify.example/'') verifier0"

definition login_request :: "string \<Rightarrow> string \<Rightarrow> migrate_request" where
  "login_request e p = \<lparr>m_method = ''POST'', m_json = Returns (Some e, Some p)\<rparr>"

text \<open>The password verifier cannot be reached.\<close>

definition env_unreachable :: "store migrate_env" where
  "env_unreachable = supabase_env (Some ''https://pw-verify.example/'') (\<lambda>salt hash p. Throws ''connection refused'')"

text \<open>A store of fifty-one users whose listing page holds fifty: fifty other users, then the
  password user (or the OAuth-only user) as the last record.\<close>

definition filler :: "nat \<Rightarrow> user" where
  "filler n = \<lparr>user_id = ''f-'' @ replicate n (CHR ''x''),
     email = Some (replicate (Suc n) (CHR ''u'') @ ''@x.com''), user_metadata = None\<rparr>"

definition store_51 :: store where
  "store_51 = \<lparr>store_users = map filler [0..<50] @ [alice], native_passwords = [], page_size = 50\<rparr>"

definition store_51_oauth :: store where
  "store_51_oauth = \<lparr>store_users = map filler [0..<50] @ [oauth_user], native_passwords = [], page_size = 50\<rparr>"

text \<open>The 404 answer of the migration handler (line 200).\<close>

definition user_not_found_response :: response where
  "user_not_found_response = json_response 404 [(''error'', JStr ''User not found'')]"

section \<open>Properties of identity resolution\<close>

lemmas exchange_defs = exchange_firebase_session_def catch_unexpected_def verify_token_def
  resolve_user_def mint_session_def link_session_def link_fallback_def track_exchange_def
  user_not_found_def emit_def json_response_def ok_def Let_def user_json_def
  matchesUid_def matchesEmail_def metadata_fbuser_uid_def emailLogMatch_def
  toLowerCase_def toLowerCase_char_def exchange_metadata_def

lemma toLowerCase_mixed: "toLowerCase ''A@X.com'' = ''a@x.com''"
  by code_simp

lemma toLowerCase_lower: "toLowerCase ''a@x.com'' = ''a@x.com''"
  by code_simp

lemma toLowerCase_bob: "toLowerCase ''b@x.com'' = ''b@x.com''"
  by code_simp

lemma guarded_match_code: "guarded_match c u = (matchesUid c u \<or> matchesEmail c u)"
  by (auto simp: guarded_match_def matchesEmail_def emails_equal_ignoring_case_def
      split: option.splits)

lemma find_user_is_find: "snd (find_user c us) = List.find (guarded_match c) us"
  by (induction us) (simp_all add: guarded_match_code Let_def)

text \<open>C3, as the code has it: \<^verbatim>\<open>users.find\<close> answers the first record in list order
  whose embedded external id equals the claims subject id, or whose email equals a
  present, non-empty claims email ignoring letter case; it answers nothing exactly when
  no record satisfies that condition.\<close>

theorem find_user_first_guarded_match:
  "snd (find_user c us) = List.find (guarded_match c) us \<and>
   (snd (find_user c us) = None) = (\<forall>u \<in> set us. \<not> guarded_match c u) \<and>
   (\<forall>u. (snd (find_user c us) = Some u) =
      (\<exists>i < length us. us ! i = u \<and> guarded_match c u \<and> (\<forall>j < i. \<not> guarded_match c (us ! j))))"
  by (simp add: find_user_is_find find_None_iff find_Some_iff) blast

theorem find_user_first_guarded_match_witness:
  "List.find (guarded_match claims_alice) [bob, alice_upper, alice] = Some alice_upper \<and>
   snd (find_user claims_alice [bob, alice_upper, alice]) = Some alice_upper"
  using find_user_first_guarded_match [of claims_alice "[bob, alice_upper, alice]"]
  by (simp add: guarded_match_def emails_equal_ignoring_case_def matchesUid_def
      metadata_fbuser_uid_def claims_alice_def bob_def alice_upper_def alice_def
      toLowerCase_mixed toLowerCase_lower toLowerCase_bob)

text \<open>C3 as stated fails: the claims email and the stored email are the same (empty)
  string, so the stated condition holds for the record, yet the guard
  \<^verbatim>\<open>firebaseUser.email &&\<close> makes the lookup answer nothing.\<close>

theorem find_user_empty_email_counterexample:
  "spec_match claims_empty_email user_empty_email \<and>
   List.find (spec_match claims_empty_email) [user_empty_email] = Some user_empty_email \<and>
   snd (find_user claims_empty_email [user_empty_email]) = None"
  by (simp add: claims_empty_email_def user_empty_email_def spec_match_def matchesUid_def
      matchesEmail_def metadata_fbuser_uid_def emails_equal_ignoring_case_def toLowerCase_def
      emailLogMatch_def)

section \<open>Properties of the magic-link exchange\<close>

lemma debug_users_no_call: "Call x \<notin> set (debug_users i us)"
  by (induction us arbitrary: i) simp_all

lemma find_user_no_call: "Call x \<notin> set (fst (find_user c us))"
  by (induction us) (simp_all add: Let_def email_match_line_def)

lemma user_not_found_no_call: "Call x \<notin> set (fst (user_not_found c us))"
  by (auto simp: user_not_found_def Let_def mismatch_line_def)

lemma find_user_mem: "snd (find_user c us) = Some u \<Longrightarrow> u \<in> set us"
  by (induction us) (auto simp: Let_def split: if_splits)

lemma link_fallback_update:
  "Call (UpdateUserMetadata i md) \<in> set (fst (link_fallback e u te)) \<Longrightarrow>
   i = user_id u \<and> md = exchange_metadata u (now e)"
  by (auto simp: link_fallback_def emit_def split: io.splits if_splits)

lemma track_exchange_update:
  "Call (UpdateUserMetadata i md) \<in> set (track_exchange e u) \<Longrightarrow>
   i = user_id u \<and> md = exchange_metadata u (now e)"
  by (auto simp: track_exchange_def split: io.splits)

lemma link_session_update:
  "Call (UpdateUserMetadata i md) \<in> set (fst (link_session e u l)) \<Longrightarrow>
   i = user_id u \<and> md = exchange_metadata u (now e)"
  by (auto simp: link_session_def Let_def dest: track_exchange_update split: io.splits if_splits)

lemma mint_session_update:
  "Call (UpdateUserMetadata i md) \<in> set (fst (mint_session e u)) \<Longrightarrow>
   i = user_id u \<and> md = exchange_metadata u (now e)"
  by (auto simp: mint_session_def emit_def dest: link_session_update link_fallback_update
      split: io.splits option.splits if_splits)

lemma resolve_user_update:
  "Call (UpdateUserMetadata i md) \<in> set (fst (resolve_user e c)) \<Longrightarrow>
   \<exists>r u. list_users e = Returns r \<and> snd (find_user c (users r)) = Some u \<and>
         i = user_id u \<and> md = exchange_metadata u (now e)"
  by (auto simp: resolve_user_def emit_def debug_users_no_call find_user_no_call user_not_found_no_call
      dest: mint_session_update split: io.splits option.splits if_splits)

lemma verify_token_update:
  "Call (UpdateUserMetadata i md) \<in> set (fst (verify_token e)) \<Longrightarrow>
   \<exists>c r u. list_users e = Returns r \<and> snd (find_user c (users r)) = Some u \<and>
         i = user_id u \<and> md = exchange_metadata u (now e)"
  by (auto simp: verify_token_def emit_def dest!: resolve_user_update
      split: io.splits option.splits if_splits)

lemma catch_unexpected_calls:
  "Call x \<in> set (fst (catch_unexpected l r)) \<longleftrightarrow> Call x \<in> set (fst r)"
  by (auto simp: catch_unexpected_def split: io.splits)

text \<open>C10: whenever the magic-link exchange handler sends a metadata update (on the
  tracking path or on the fallback path), the update is for a listed user, the object
  sent is that user's metadata with \<^verbatim>\<open>last_firebase_session_exchange\<close> set to the
  current time, and every other key of it, \<^verbatim>\<open>fbuser\<close> among them, has the value it
  had in the user's metadata.\<close>

theorem exchange_update_keeps_other_metadata:
  assumes "Call (UpdateUserMetadata i md) \<in> set (fst (exchange_firebase_session e))"
    and "k \<noteq> ''last_firebase_session_exchange''"
  shows "\<exists>r u. list_users e = Returns r \<and> u \<in> set (users r) \<and> i = user_id u \<and>
           md = exchange_metadata u (now e) \<and>
           map_of md ''last_firebase_session_exchange'' = Some (JStr (now e)) \<and>
           map_of md k = map_of (case user_metadata u of None \<Rightarrow> [] | Some kvs \<Rightarrow> kvs) k"
proof -
  from assms(1) have "Call (UpdateUserMetadata i md) \<in> set (fst (verify_token e))"
    by (simp add: exchange_firebase_session_def catch_unexpected_calls split: if_splits)
  then obtain c r u where ru: "list_users e = Returns r"
      "snd (find_user c (users r)) = Some u" "i = user_id u" "md = exchange_metadata u (now e)"
    using verify_token_update by blast
  from ru(2) have "u \<in> set (users r)"
    by (rule find_user_mem)
  with ru assms(2) show ?thesis
    by (auto simp: exchange_metadata_def update_conv')
qed

theorem exchange_update_keeps_other_metadata_witness:
  "Call (UpdateUserMetadata ''u-1'' (exchange_metadata alice ''2025-11-10T00:00:00.000Z''))
     \<in> set (fst (exchange_firebase_session env_track_error)) \<and>
   ''fbuser'' \<noteq> ''last_firebase_session_exchange'' \<and>
   (\<exists>r u. list_users env_track_error = Returns r \<and> u \<in> set (users r) \<and> ''u-1'' = user_id u \<and>
      exchange_metadata alice ''2025-11-10T00:00:00.000Z'' = exchange_metadata u (now env_track_error) \<and>
      map_of (exchange_metadata alice ''2025-11-10T00:00:00.000Z'') ''last_firebase_session_exchange''
        = Some (JStr (now env_track_error)) \<and>
      map_of (exchange_metadata alice ''2025-11-10T00:00:00.000Z'') ''fbuser''
        = map_of (case user_metadata u of None \<Rightarrow> [] | Some kvs \<Rightarrow> kvs) ''fbuser'')"
proof -
  have h1: "Call (UpdateUserMetadata ''u-1'' (exchange_metadata alice ''2025-11-10T00:00:00.000Z''))
     \<in> set (fst (exchange_firebase_session env_track_error))"
    by (simp add: env_track_error_def alice_def verified_alice_def exchange_defs)
  have h2: "''fbuser'' \<noteq> ''last_firebase_session_exchange''"
    by simp
  from exchange_update_keeps_other_metadata [OF h1 h2] h1 h2 show ?thesis
    by blast
qed

lemma link_fallback_200:
  "snd (link_fallback e u te) = Returns resp \<Longrightarrow> status resp = 200 \<Longrightarrow>
   body_field ''user'' (body resp) = Some (user_json u) \<and>
   body_field ''access_token'' (body resp) = None \<and>
   body_field ''refresh_token'' (body resp) = None \<and>
   body_field ''exchanged'' (body resp) = Some (JBool True)"
  by (auto simp: link_fallback_def emit_def json_response_def split: io.splits)

lemma link_session_200:
  "snd (link_session e u l) = Returns resp \<Longrightarrow> status resp = 200 \<Longrightarrow>
   body_field ''user'' (body resp) = Some (user_json u) \<and>
   (\<exists>a t. a \<noteq> [] \<and> t \<noteq> [] \<and> body_field ''access_token'' (body resp) = Some (JStr a) \<and>
          body_field ''refresh_token'' (body resp) = Some (JStr t))"
  by (auto simp: link_session_def Let_def json_response_def split: io.splits if_splits option.splits
      elim!: truthy.elims)

lemma mint_session_200:
  "snd (mint_session e u) = Returns resp \<Longrightarrow> status resp = 200 \<Longrightarrow>
   body_field ''user'' (body resp) = Some (user_json u) \<and>
   (\<exists>lr. generate_link e = Returns lr \<and>
     (if token_data lr = None \<or> token_error lr \<noteq> None
      then body_field ''access_token'' (body resp) = None \<and>
           body_field ''refresh_token'' (body resp) = None \<and>
           body_field ''exchanged'' (body resp) = Some (JBool True)
      else (\<exists>a t. a \<noteq> [] \<and> t \<noteq> [] \<and> body_field ''access_token'' (body resp) = Some (JStr a) \<and>
          body_field ''refresh_token'' (body resp) = Some (JStr t))))"
proof -
  assume a: "snd (mint_session e u) = Returns resp" and st: "status resp = 200"
  from a obtain lr where lr: "generate_link e = Returns lr"
    by (cases "generate_link e") (auto simp: mint_session_def emit_def)
  show ?thesis
  proof (cases "token_data lr = None \<or> token_error lr \<noteq> None")
    case True
    with a lr have "snd (link_fallback e u (token_error lr)) = Returns resp"
      by (auto simp: mint_session_def emit_def split: option.splits)
    from link_fallback_200 [OF this st] lr True show ?thesis by auto
  next
    case False
    then obtain l where l: "token_data lr = Some l" "token_error lr = None" by auto
    with a lr have "snd (link_session e u l) = Returns resp"
      by (auto simp: mint_session_def emit_def)
    from link_session_200 [OF this st] lr l show ?thesis by auto
  qed
qed

lemma user_not_found_status: "snd (user_not_found c us) = Returns resp \<Longrightarrow> status resp = 404"
  by (auto simp: user_not_found_def Let_def json_response_def)

lemma resolve_user_200:
  "snd (resolve_user e c) = Returns resp \<Longrightarrow> status resp = 200 \<Longrightarrow>
   \<exists>r u. list_users e = Returns r \<and> list_error r = None \<and> snd (find_user c (users r)) = Some u \<and>
         snd (mint_session e u) = Returns resp"
  by (auto simp: resolve_user_def emit_def json_response_def dest: user_not_found_status
      split: io.splits option.splits if_splits)

lemma verify_token_200:
  "snd (verify_token e) = Returns resp \<Longrightarrow> status resp = 200 \<Longrightarrow>
   \<exists>v c. verify_fetch e = Returns v \<and> ok v \<and> json_body v = Returns c \<and>
         snd (resolve_user e c) = Returns resp"
  by (auto simp: verify_token_def emit_def json_response_def
      split: io.splits option.splits if_splits)

lemma catch_unexpected_200:
  "status (snd (catch_unexpected l r)) = 200 \<Longrightarrow> snd r = Returns (snd (catch_unexpected l r))"
  by (auto simp: catch_unexpected_def json_response_def split: io.splits)

text \<open>C2, as the code has it: a request other than the CORS preflight that is answered
  200 carries the id (and the email, when the record has one) of the user the verified
  claims resolve to. When the sign-in link was generated the body holds a non-empty access
  token and a non-empty refresh token; when link generation failed the body holds neither
  token, only \<^verbatim>\<open>exchanged: true\<close> and the advice to sign in.\<close>

theorem exchange_200_body:
  assumes "req_method e \<noteq> ''OPTIONS''"
    and "status (snd (exchange_firebase_session e)) = 200"
  shows "\<exists>v c r u lr.
           verify_fetch e = Returns v \<and> ok v \<and> json_body v = Returns c \<and>
           list_users e = Returns r \<and> snd (find_user c (users r)) = Some u \<and>
           generate_link e = Returns lr \<and>
           body_field ''user'' (body (snd (exchange_firebase_session e))) = Some (user_json u) \<and>
           (if token_data lr = None \<or> token_error lr \<noteq> None
            then body_field ''access_token'' (body (snd (exchange_firebase_session e))) = None \<and>
                 body_field ''refresh_token'' (body (snd (exchange_firebase_session e))) = None \<and>
                 body_field ''exchanged'' (body (snd (exchange_firebase_session e))) = Some (JBool True)
            else (\<exists>a t. a \<noteq> [] \<and> t \<noteq> [] \<and>
                 body_field ''access_token'' (body (snd (exchange_firebase_session e))) = Some (JStr a) \<and>
                 body_field ''refresh_token'' (body (snd (exchange_firebase_session e))) = Some (JStr t)))"
proof -
  let ?resp = "snd (exchange_firebase_session e)"
  from assms have eq: "?resp = snd (catch_unexpected ''Internal server error'' (verify_token e))"
    by (simp add: exchange_firebase_session_def)
  with assms(2) have "snd (verify_token e) = Returns ?resp"
    using catch_unexpected_200 by metis
  with assms(2) obtain v c where vc: "verify_fetch e = Returns v" "ok v" "json_body v = Returns c"
      "snd (resolve_user e c) = Returns ?resp"
    using verify_token_200 by blast
  with assms(2) obtain r u where ru: "list_users e = Returns r" "snd (find_user c (users r)) = Some u"
      "snd (mint_session e u) = Returns ?resp"
    using resolve_user_200 by blast
  from mint_session_200 [OF ru(3) assms(2)] vc ru show ?thesis
    by blast
qed

theorem exchange_200_body_witness:
  "req_method env_track_error \<noteq> ''OPTIONS'' \<and>
   status (snd (exchange_firebase_session env_track_error)) = 200 \<and>
   body_field ''user'' (body (snd (exchange_firebase_session env_track_error)))
     = Some (JObj [(''id'', JStr ''u-1''), (''email'', JStr ''a@x.com'')]) \<and>
   (\<exists>a t. a \<noteq> [] \<and> t \<noteq> [] \<and>
      body_field ''access_token'' (body (snd (exchange_firebase_session env_track_error))) = Some (JStr a) \<and>
      body_field ''refresh_token'' (body (snd (exchange_firebase_session env_track_error))) = Some (JStr t))"
proof -
  have h1: "req_method env_track_error \<noteq> ''OPTIONS''"
    by (simp add: env_track_error_def)
  have h2: "status (snd (exchange_firebase_session env_track_error)) = 200"
    by (simp add: env_track_error_def alice_def verified_alice_def exchange_defs)
  have g: "generate_link env_track_error = Returns \<lparr>token_data = Some \<lparr>action_link = ''https://p.supabase.co/auth/v1/verify?access_token=AT&refresh_token=RT'',
        search_params = Returns [(''access_token'', ''AT''), (''refresh_token'', ''RT'')]\<rparr>, token_error = None\<rparr>"
    by (simp add: env_track_error_def)
  have u: "body_field ''user'' (body (snd (exchange_firebase_session env_track_error)))
     = Some (JObj [(''id'', JStr ''u-1''), (''email'', JStr ''a@x.com'')])"
    by (simp add: env_track_error_def alice_def verified_alice_def exchange_defs)
  from exchange_200_body [OF h1 h2] g h1 h2 u show ?thesis
    by auto
qed

text \<open>C2 as stated fails: when the link cannot be generated the handler answers 200 with
  the user and no session tokens.\<close>

theorem exchange_200_without_tokens_counterexample:
  "status (snd (exchange_firebase_session env_link_fails)) = 200 \<and>
   body_field ''access_token'' (body (snd (exchange_firebase_session env_link_fails))) = None \<and>
   body_field ''refresh_token'' (body (snd (exchange_firebase_session env_link_fails))) = None"
  by (simp add: env_link_fails_def alice_def verified_alice_def exchange_defs)

text \<open>The tracking write cannot change the answer: the response of the session path does
  not depend on what the update resolves or rejects with.\<close>

lemma link_session_ignores_update:
  "snd (link_session (e\<lparr>update_user := x\<rparr>) u l) = snd (link_session e u l)"
  by (simp add: link_session_def Let_def split: io.splits)

text \<open>C9 at a tracking update that resolves with an error: the exchange still answers 200
  with the tokens, but no console line reports the failure; the last line printed is the
  success line of the tracker.\<close>

theorem tracking_error_not_logged:
  "update_user env_track_error = Returns (Some ''update failed'') \<and>
   status (snd (exchange_firebase_session env_track_error)) = 200 \<and>
   body_field ''access_token'' (body (snd (exchange_firebase_session env_track_error))) = Some (JStr ''AT'') \<and>
   body_field ''refresh_token'' (body (snd (exchange_firebase_session env_track_error))) = Some (JStr ''RT'') \<and>
   filter is_failure_line (fst (exchange_firebase_session env_track_error)) = [] \<and>
   last (fst (exchange_firebase_session env_track_error)) =
     Console LOG ''Tracked session exchange for user:'' [JStr ''u-1'']"
  by (simp add: env_track_error_def alice_def verified_alice_def exchange_defs email_match_line_def)

section \<open>Properties of the token verification step\<close>

lemmas otp_defs = exchange_firebase_session_otp_def catch_unexpected_def otp_verify_token_def
  otp_find_and_link_def extract_token_def redeem_token_def emit_def json_response_def ok_def
  Let_def user_json_def email_is_def

text \<open>Whatever happens to it afterwards, a link that was generated is printed first.\<close>

lemma extract_token_logs_link:
  "Console LOG ''Full action link:'' [JStr (action_link l)] \<in> set (fst (extract_token e l))"
  by (simp add: extract_token_def emit_def)

text \<open>C1 at a request whose link is generated and whose redemption then fails: the
  verifyOtp variant prints the whole magic link and its token to the console before it
  redeems it, so the single-use artifact is in the log, here still unredeemed.\<close>

theorem action_link_logged:
  "Console LOG ''Full action link:''
      [JStr ''https://p.supabase.co/auth/v1/verify?token=abc123&type=magiclink'']
     \<in> set (fst (exchange_firebase_session_otp otp_env_redeem_fails)) \<and>
   Console LOG ''URL params:''
      [JObj [(''token_hash'', JNull), (''token'', JStr ''abc123''), (''type'', JStr ''magiclink'')]]
     \<in> set (fst (exchange_firebase_session_otp otp_env_redeem_fails)) \<and>
   status (snd (exchange_firebase_session_otp otp_env_redeem_fails)) = 500"
  by (simp add: otp_env_redeem_fails_def magic_link_def verified_alice_def alice_def otp_defs
      toLowerCase_lower)

text \<open>C4 as stated fails: a 503 from the token verifier is answered 401 by both variants,
  not with a 500-class failure.\<close>

theorem verifier_503_answered_401_counterexample:
  "http_status verifier_down = 503 \<and>
   status (snd (exchange_firebase_session env_verifier_down)) = 401 \<and>
   status (snd (exchange_firebase_session_otp otp_env_verifier_down)) = 401"
  by (simp add: env_verifier_down_def otp_env_verifier_down_def otp_env_redeem_fails_def
      env_link_fails_def verifier_down_def otp_defs exchange_defs)

text \<open>C4, as the code has it: a transport failure of the token verifier (the
  \<^verbatim>\<open>fetch\<close> rejects) is answered 500; any answer with a status outside 200 to 299 is
  answered 401, whatever the status. In both cases, and in both variants of the handler,
  the verifier is the only collaborator called and the response carries neither a token nor
  a user: the token is never treated as valid.\<close>

theorem verifier_failure_status:
  assumes "req_method e \<noteq> ''OPTIONS''" and "req_json e = Returns (Some tok)"
    and "otp_req_method e' \<noteq> ''OPTIONS''" and "otp_req_json e' = Returns (Some tok)"
    and "tok \<noteq> []"
    and "verify_fetch e = v" and "otp_verify_fetch e' = v"
    and "case v of Throws m \<Rightarrow> True | Returns r \<Rightarrow> \<not> ok r \<and> (\<exists>t. text_body r = Returns t)"
  shows "status (snd (exchange_firebase_session e)) = (case v of Throws m \<Rightarrow> 500 | Returns r \<Rightarrow> 401) \<and>
         status (snd (exchange_firebase_session_otp e')) = (case v of Throws m \<Rightarrow> 500 | Returns r \<Rightarrow> 401) \<and>
         filter is_call (fst (exchange_firebase_session e)) = [Call (FetchTokenVerify tok)] \<and>
         filter is_call (fst (exchange_firebase_session_otp e')) = [Call (FetchTokenVerify tok)] \<and>
         body_field ''access_token'' (body (snd (exchange_firebase_session e))) = None \<and>
         body_field ''access_token'' (body (snd (exchange_firebase_session_otp e'))) = None \<and>
         body_field ''user'' (body (snd (exchange_firebase_session e))) = None \<and>
         body_field ''user'' (body (snd (exchange_firebase_session_otp e'))) = None"
proof (cases v)
  case (Throws m)
  with assms show ?thesis
    by (simp add: exchange_firebase_session_def exchange_firebase_session_otp_def
        verify_token_def otp_verify_token_def catch_unexpected_def emit_def json_response_def)
next
  case (Returns r)
  with assms obtain t where "\<not> ok r" "text_body r = Returns t" by auto
  with assms Returns show ?thesis
    by (simp add: exchange_firebase_session_def exchange_firebase_session_otp_def
        verify_token_def otp_verify_token_def catch_unexpected_def emit_def json_response_def)
qed

theorem verifier_failure_status_witness:
  "status (snd (exchange_firebase_session env_verifier_down)) = 401 \<and>
   status (snd (exchange_firebase_session_otp otp_env_verifier_down)) = 401 \<and>
   status (snd (exchange_firebase_session (env_link_fails\<lparr>verify_fetch := Throws ''connection refused''\<rparr>))) = 500 \<and>
   status (snd (exchange_firebase_session_otp (otp_env_redeem_fails\<lparr>otp_verify_fetch := Throws ''connection refused''\<rparr>))) = 500 \<and>
   filter is_call (fst (exchange_firebase_session env_verifier_down)) = [Call (FetchTokenVerify ''tok'')]"
proof -
  have a: "status (snd (exchange_firebase_session env_verifier_down)) =
        (case Returns verifier_down of Throws m \<Rightarrow> 500 | Returns r \<Rightarrow> 401) \<and>
      status (snd (exchange_firebase_session_otp otp_env_verifier_down)) =
        (case Returns verifier_down of Throws m \<Rightarrow> 500 | Returns r \<Rightarrow> 401) \<and>
      filter is_call (fst (exchange_firebase_session env_verifier_down)) = [Call (FetchTokenVerify ''tok'')]"
    using verifier_failure_status [of env_verifier_down "''tok''" otp_env_verifier_down "Returns verifier_down"]
    by (simp add: env_verifier_down_def otp_env_verifier_down_def otp_env_redeem_fails_def
      env_link_fails_def verifier_down_def ok_def)
  have b: "status (snd (exchange_firebase_session (env_link_fails\<lparr>verify_fetch := Throws ''connection refused''\<rparr>))) =
        (case (Throws ''connection refused'' :: verify_response io) of Throws m \<Rightarrow> 500 | Returns r \<Rightarrow> 401) \<and>
      status (snd (exchange_firebase_session_otp (otp_env_redeem_fails\<lparr>otp_verify_fetch := Throws ''connection refused''\<rparr>))) =
        (case (Throws ''connection refused'' :: verify_response io) of Throws m \<Rightarrow> 500 | Returns r \<Rightarrow> 401)"
    using verifier_failure_status [of "env_link_fails\<lparr>verify_fetch := Throws ''connection refused''\<rparr>" "''tok''"
        "otp_env_redeem_fails\<lparr>otp_verify_fetch := Throws ''connection refused''\<rparr>" "Throws ''connection refused''"]
    by (simp add: otp_env_redeem_fails_def env_link_fails_def)
  from a b show ?thesis by simp
qed


section \<open>Properties of the password migration\<close>

lemma migrate_and_login_no_fetch:
  "Call (FetchPasswordVerify s h q) \<notin> set (fst (fst (migrate_and_login env st u e p)))"
  by (auto simp: migrate_and_login_def Let_def emit_def split: io.splits option.splits)

lemma verify_firebase_password_closed:
  assumes "Call (FetchPasswordVerify s h q) \<in> set (fst (fst (verify_firebase_password env st u e p)))"
    and "fetch_pw_verify env s h q \<noteq> Returns ''valid''"
  shows "verify_firebase_password env st u e p =
           (([Console LOG ''Verifying Firebase password...'' [], Call (FetchPasswordVerify s h q)],
             case fetch_pw_verify env s h q of Throws m \<Rightarrow> Throws m
             | Returns t \<Rightarrow> Returns credential_mismatch_response), st)"
  using assms
  by (auto simp: verify_firebase_password_def Let_def emit_def migrate_and_login_no_fetch
      fbuser_passwordHash_def fbuser_passwordSalt_def split: if_splits io.splits)

lemma lookup_and_verify_closed:
  assumes "Call (FetchPasswordVerify s h q) \<in> set (fst (fst (lookup_and_verify env st e p)))"
    and "fetch_pw_verify env s h q \<noteq> Returns ''valid''"
  shows "lookup_and_verify env st e p =
           (([Console LOG ''Verifying Firebase password...'' [], Call (FetchPasswordVerify s h q)],
             case fetch_pw_verify env s h q of Throws m \<Rightarrow> Throws m
             | Returns t \<Rightarrow> Returns credential_mismatch_response), st)"
  using assms
  by (auto simp: lookup_and_verify_def dest: verify_firebase_password_closed
      split: io.splits option.splits)

lemma native_login_first_closed:
  assumes "Call (FetchPasswordVerify s h q) \<in> set (fst (fst (native_login_first env st e p)))"
    and "fetch_pw_verify env s h q \<noteq> Returns ''valid''"
  shows "native_login_first env st e p =
           (([Call (SignInWithPassword e p),
              Console LOG ''Login failed, checking for Firebase password migration...'' [],
              Call ListUsers,
              Console LOG ''Verifying Firebase password...'' [], Call (FetchPasswordVerify s h q)],
             case fetch_pw_verify env s h q of Throws m \<Rightarrow> Throws m
             | Returns t \<Rightarrow> Returns credential_mismatch_response), st)"
proof -
  from assms(1) have "Call (FetchPasswordVerify s h q) \<in> set (fst (fst (lookup_and_verify env st e p)))"
    and "\<exists>l. signInWithPassword env st e p = Returns l \<and> login_session l = None"
    by (auto simp: native_login_first_def emit_def split: io.splits option.splits)
  with lookup_and_verify_closed [OF this(1) assms(2)] show ?thesis
    by (auto simp: native_login_first_def emit_def)
qed

lemma login_or_migrate_closed:
  assumes "Call (FetchPasswordVerify s h q) \<in> set (fst (fst (login_or_migrate env st req)))"
    and "fetch_pw_verify env s h q \<noteq> Returns ''valid''"
  shows "\<exists>e p. login_or_migrate env st req =
           (([Call (SignInWithPassword e p),
              Console LOG ''Login failed, checking for Firebase password migration...'' [],
              Call ListUsers,
              Console LOG ''Verifying Firebase password...'' [], Call (FetchPasswordVerify s h q)],
             case fetch_pw_verify env s h q of Throws m \<Rightarrow> Throws m
             | Returns t \<Rightarrow> Returns credential_mismatch_response), st)"
  using assms
  by (auto simp: login_or_migrate_def dest: native_login_first_closed
      split: io.splits if_splits)

text \<open>C5: when the migration handler has called the password verifier and the call
  rejects or answers anything but \<^verbatim>\<open>valid\<close>, the handler answers 500 (the call
  rejected) or 401 (any other body), the response holds no session, the store is left as
  it was and no password update is sent.\<close>

theorem password_verifier_fails_closed:
  assumes "Call (FetchPasswordVerify s h q) \<in> set (fst (fst (migrate_firebase_password env st req)))"
    and "fetch_pw_verify env s h q \<noteq> Returns ''valid''"
  shows "status (snd (fst (migrate_firebase_password env st req))) =
           (case fetch_pw_verify env s h q of Throws m \<Rightarrow> 500 | Returns t \<Rightarrow> 401) \<and>
         body_field ''session'' (body (snd (fst (migrate_firebase_password env st req)))) = None \<and>
         snd (migrate_firebase_password env st req) = st \<and>
         (\<forall>i pw. Call (UpdateUserPassword i pw) \<notin> set (fst (fst (migrate_firebase_password env st req))))"
proof -
  from assms(1) have m: "m_method req \<noteq> ''OPTIONS''"
    and "Call (FetchPasswordVerify s h q) \<in> set (fst (fst (login_or_migrate env st req)))"
    by (auto simp: migrate_firebase_password_def Let_def catch_unexpected_def
        split: if_splits io.splits)
  from login_or_migrate_closed [OF this(2) assms(2)] obtain e p where
    "login_or_migrate env st req =
           (([Call (SignInWithPassword e p),
              Console LOG ''Login failed, checking for Firebase password migration...'' [],
              Call ListUsers,
              Console LOG ''Verifying Firebase password...'' [], Call (FetchPasswordVerify s h q)],
             case fetch_pw_verify env s h q of Throws m \<Rightarrow> Throws m
             | Returns t \<Rightarrow> Returns credential_mismatch_response), st)"
    by blast
  with m show ?thesis
    by (cases "fetch_pw_verify env s h q")
      (simp_all add: migrate_firebase_password_def Let_def catch_unexpected_def json_response_def
        credential_mismatch_response_def)
qed


lemma reaches_verification:
  assumes "m_method req \<noteq> ''OPTIONS''" and "m_json req = Returns (Some e, Some p)"
    and "e \<noteq> []" and "p \<noteq> []"
    and "signInWithPassword env st e p = Returns l" and "login_session l = None"
    and "listUsers env st = Returns r" and "list_error r = None"
    and "List.find (email_is e) (users r) = Some u"
  shows "migrate_firebase_password env st req =
           (catch_unexpected ''Internal server error''
              (emit (login_failed_prefix e p) (fst (verify_firebase_password env st u e p))),
            snd (verify_firebase_password env st u e p))"
  using assms
  by (simp add: migrate_firebase_password_def login_or_migrate_def native_login_first_def
      lookup_and_verify_def login_failed_prefix_def Let_def)

lemma no_source_password_step:
  assumes "\<not> truthy_j (fbuser_passwordHash u) \<or> \<not> truthy_j (fbuser_passwordSalt u)"
  shows "verify_firebase_password env st u e p = (([], Returns no_source_password_response), st)"
  using assms
  by (auto simp: verify_firebase_password_def Let_def fbuser_passwordHash_def fbuser_passwordSalt_def)

lemma wrong_password_step:
  assumes "truthy_j (fbuser_passwordHash u)" and "truthy_j (fbuser_passwordSalt u)"
    and "truthy (FIREBASE_PW_VERIFY_URL env)"
    and "fetch_pw_verify env (jopt (fbuser_passwordSalt u)) (jopt (fbuser_passwordHash u)) p = Returns t"
    and "t \<noteq> ''valid''"
  shows "verify_firebase_password env st u e p =
           (([Console LOG ''Verifying Firebase password...'' [],
              Call (FetchPasswordVerify (jopt (fbuser_passwordSalt u)) (jopt (fbuser_passwordHash u)) p)],
             Returns credential_mismatch_response), st)"
  using assms
  by (simp add: verify_firebase_password_def Let_def fbuser_passwordHash_def fbuser_passwordSalt_def)

text \<open>For a record the listing returns: when the native login gives no session and the
  record lacks a (truthy) source hash or salt, the handler answers the 401 response that
  carries the OAuth hint.\<close>

lemma no_source_password_answer:
  assumes "m_method req \<noteq> ''OPTIONS''" and "m_json req = Returns (Some e, Some p)"
    and "e \<noteq> []" and "p \<noteq> []"
    and "signInWithPassword env st e p = Returns l" and "login_session l = None"
    and "listUsers env st = Returns r" and "list_error r = None"
    and "List.find (email_is e) (users r) = Some u"
    and "\<not> truthy_j (fbuser_passwordHash u) \<or> \<not> truthy_j (fbuser_passwordSalt u)"
  shows "snd (fst (migrate_firebase_password env st req)) = no_source_password_response \<and>
         status no_source_password_response = 401 \<and>
         body_field ''hint'' (body no_source_password_response) =
           Some (JStr ''This account may use OAuth (Google/Apple). Try signing in with your social account.'') \<and>
         body_field ''session'' (body no_source_password_response) = None \<and>
         status credential_mismatch_response = 401 \<and>
         body_field ''hint'' (body credential_mismatch_response) = None \<and>
         no_source_password_response \<noteq> credential_mismatch_response \<and>
         snd (migrate_firebase_password env st req) = st"
  using reaches_verification [OF assms(1-9)] no_source_password_step [OF assms(10), of env st e p]
  by (simp add: catch_unexpected_def emit_def no_source_password_response_def
      credential_mismatch_response_def json_response_def)

text \<open>For a record the listing returns: when it has a source hash and salt and the password
  verifier answers anything but \<^verbatim>\<open>valid\<close>, the handler answers the 401
  credential-mismatch response and writes nothing.\<close>

lemma wrong_password_no_write:
  assumes "m_method req \<noteq> ''OPTIONS''" and "m_json req = Returns (Some e, Some p)"
    and "e \<noteq> []" and "p \<noteq> []"
    and "signInWithPassword env st e p = Returns l" and "login_session l = None"
    and "listUsers env st = Returns r" and "list_error r = None"
    and "List.find (email_is e) (users r) = Some u"
    and "truthy_j (fbuser_passwordHash u)" and "truthy_j (fbuser_passwordSalt u)"
    and "truthy (FIREBASE_PW_VERIFY_URL env)"
    and "fetch_pw_verify env (jopt (fbuser_passwordSalt u)) (jopt (fbuser_passwordHash u)) p = Returns t"
    and "t \<noteq> ''valid''"
  shows "snd (fst (migrate_firebase_password env st req)) = credential_mismatch_response \<and>
         status credential_mismatch_response = 401 \<and>
         body_field ''session'' (body credential_mismatch_response) = None \<and>
         filter is_call (fst (fst (migrate_firebase_password env st req))) =
           [Call (SignInWithPassword e p), Call ListUsers,
            Call (FetchPasswordVerify (jopt (fbuser_passwordSalt u)) (jopt (fbuser_passwordHash u)) p)] \<and>
         snd (migrate_firebase_password env st req) = st"
  using reaches_verification [OF assms(1-9)] wrong_password_step [OF assms(10-14), of st e]
  by (simp add: catch_unexpected_def emit_def login_failed_prefix_def
      credential_mismatch_response_def json_response_def)

text \<open>What the handler answers for a listed record without a source password differs from
  what it answers for a listed record with a wrong password: both are 401, only the first
  carries a hint.\<close>

lemma no_source_password_differs_from_mismatch:
  assumes "m_method req \<noteq> ''OPTIONS''" and "m_json req = Returns (Some e, Some p)"
    and "e \<noteq> []" and "p \<noteq> []"
    and "signInWithPassword env st e p = Returns l" and "login_session l = None"
    and "listUsers env st = Returns r" and "list_error r = None"
    and "List.find (email_is e) (users r) = Some u"
    and "\<not> truthy_j (fbuser_passwordHash u) \<or> \<not> truthy_j (fbuser_passwordSalt u)"
    and "m_method req' \<noteq> ''OPTIONS''" and "m_json req' = Returns (Some e', Some p')"
    and "e' \<noteq> []" and "p' \<noteq> []"
    and "signInWithPassword env' st' e' p' = Returns l'" and "login_session l' = None"
    and "listUsers env' st' = Returns r'" and "list_error r' = None"
    and "List.find (email_is e') (users r') = Some u'"
    and "truthy_j (fbuser_passwordHash u')" and "truthy_j (fbuser_passwordSalt u')"
    and "truthy (FIREBASE_PW_VERIFY_URL env')"
    and "fetch_pw_verify env' (jopt (fbuser_passwordSalt u')) (jopt (fbuser_passwordHash u')) p' = Returns t"
    and "t \<noteq> ''valid''"
  shows "snd (fst (migrate_firebase_password env st req)) \<noteq> snd (fst (migrate_firebase_password env' st' req')) \<and>
         status (snd (fst (migrate_firebase_password env st req))) = 401 \<and>
         status (snd (fst (migrate_firebase_password env' st' req'))) = 401 \<and>
         body_field ''hint'' (body (snd (fst (migrate_firebase_password env st req)))) =
           Some (JStr ''This account may use OAuth (Google/Apple). Try signing in with your social account.'') \<and>
         body_field ''hint'' (body (snd (fst (migrate_firebase_password env' st' req')))) = None"
  using no_source_password_answer [OF assms(1-10)] wrong_password_no_write [OF assms(11-24)]
  by (simp add: no_source_password_response_def credential_mismatch_response_def json_response_def)

lemma find_take: "List.find P (take n xs) = Some u \<Longrightarrow> List.find P xs = Some u"
proof (induction xs arbitrary: n)
  case Nil
  then show ?case by simp
next
  case (Cons x xs)
  then show ?case by (cases n) (auto split: if_splits)
qed

text \<open>For a user the listing returns, against the modelled store: with a source hash and
  salt, no native password, and a plaintext the verifier confirms, the first call answers
  200 with \<^verbatim>\<open>migrated: true\<close> and leaves the plaintext as the native password;
  the same call repeated answers 200 with \<^verbatim>\<open>migrated: false\<close> through the one
  native login, and the store is unchanged.\<close>

lemma migrate_then_native_login:
  assumes "e \<noteq> []" and "p \<noteq> []"
    and "List.find (email_is e) (take (page_size st) (store_users st)) = Some u"
    and "map_of (native_passwords st) (user_id u) = None"
    and "truthy_j (fbuser_passwordHash u)" and "truthy_j (fbuser_passwordSalt u)"
    and "truthy url"
    and "verifier (jopt (fbuser_passwordSalt u)) (jopt (fbuser_passwordHash u)) p = Returns ''valid''"
  shows "let first = migrate_firebase_password (supabase_env url verifier) st (login_request e p);
             st1 = snd first;
             second = migrate_firebase_password (supabase_env url verifier) st1 (login_request e p)
         in status (snd (fst first)) = 200 \<and>
            body_field ''migrated'' (body (snd (fst first))) = Some (JBool True) \<and>
            body_field ''session'' (body (snd (fst first))) = Some (session_json (session_for u)) \<and>
            map_of (native_passwords st1) (user_id u) = Some p \<and>
            status (snd (fst second)) = 200 \<and>
            body_field ''migrated'' (body (snd (fst second))) = Some (JBool False) \<and>
            body_field ''session'' (body (snd (fst second))) = Some (session_json (session_for u)) \<and>
            fst (fst second) = [Call (SignInWithPassword e p)] \<and>
            snd second = st1"
proof -
  let ?env = "supabase_env url verifier"
  let ?st1 = "st\<lparr>native_passwords := AList.update (user_id u) p (native_passwords st)\<rparr>"
  from assms(3) have f: "List.find (email_is e) (store_users st) = Some u"
    by (rule find_take)
  have l0: "store_sign_in st e p = Returns invalid_login"
    using f assms(4) by (simp add: store_sign_in_def)
  have l1: "store_sign_in ?st1 e p = Returns \<lparr>login_session = Some (session_for u), login_error = None\<rparr>"
    using f by (simp add: store_sign_in_def update_conv')
  have v: "verify_firebase_password ?env st u e p =
     (emit [Console LOG ''Verifying Firebase password...'' [],
            Call (FetchPasswordVerify (jopt (fbuser_passwordSalt u)) (jopt (fbuser_passwordHash u)) p)]
        (fst (migrate_and_login ?env st u e p)), snd (migrate_and_login ?env st u e p))"
    using assms(5-8)
    by (simp add: verify_firebase_password_def Let_def fbuser_passwordHash_def fbuser_passwordSalt_def
        supabase_env_def)
  have m: "migrate_and_login ?env st u e p =
     (([Console LOG ''Firebase password verified! Migrating to Supabase...'' [],
        Call (UpdateUserPassword (user_id u) p),
        Console LOG ''Password migrated successfully!'' [],
        Call (SignInWithPassword e p)],
       Returns (json_response 200
         [(''session'', session_json (session_for u)),
          (''migrated'', JBool True),
          (''message'', JStr ''Password successfully migrated and logged in'')])), ?st1)"
    using l1 by (simp add: migrate_and_login_def Let_def supabase_env_def store_update_def emit_def)
  have first: "migrate_firebase_password ?env st (login_request e p) =
     (catch_unexpected ''Internal server error''
        (emit (login_failed_prefix e p) (fst (verify_firebase_password ?env st u e p))),
      snd (verify_firebase_password ?env st u e p))"
    using assms(1,2,3) l0
    by (intro reaches_verification [where l = invalid_login and r = "\<lparr>users = take (page_size st) (store_users st), list_error = None\<rparr>"])
      (simp_all add: login_request_def supabase_env_def store_list_def invalid_login_def)
  have second: "migrate_firebase_password ?env ?st1 (login_request e p) =
     (([Call (SignInWithPassword e p)],
       json_response 200 [(''session'', session_json (session_for u)), (''migrated'', JBool False),
          (''message'', JStr ''Login successful'')]), ?st1)"
    using assms(1,2) l1
    by (simp add: migrate_firebase_password_def login_or_migrate_def native_login_first_def
        login_request_def supabase_env_def catch_unexpected_def Let_def)
  show ?thesis
    unfolding Let_def first v m
    by (simp add: second catch_unexpected_def emit_def json_response_def update_conv')
qed

section \<open>The password migration at concrete requests\<close>

lemma toLowerCase_d: "toLowerCase ''d@x.com'' = ''d@x.com''"
  by code_simp

lemmas migrate_defs = migrate_firebase_password_def login_or_migrate_def native_login_first_def
  lookup_and_verify_def verify_firebase_password_def migrate_and_login_def
  catch_unexpected_def emit_def json_response_def Let_def
  supabase_env_def store_sign_in_def store_list_def store_update_def invalid_login_def
  login_request_def email_is_def fbuser_passwordHash_def fbuser_passwordSalt_def

lemmas people_defs = store0_def store_oauth_def alice_def bob_def oauth_user_def
  toLowerCase_lower toLowerCase_bob toLowerCase_d

theorem password_verifier_fails_closed_witness:
  "Call (FetchPasswordVerify (JStr ''s1'') (JStr ''h1'') ''correct'')
     \<in> set (fst (fst (migrate_firebase_password env_unreachable store0 (login_request ''a@x.com'' ''correct'')))) \<and>
   fetch_pw_verify env_unreachable (JStr ''s1'') (JStr ''h1'') ''correct'' \<noteq> Returns ''valid'' \<and>
   status (snd (fst (migrate_firebase_password env_unreachable store0 (login_request ''a@x.com'' ''correct'')))) = 500 \<and>
   body_field ''session'' (body (snd (fst (migrate_firebase_password env_unreachable store0 (login_request ''a@x.com'' ''correct''))))) = None \<and>
   snd (migrate_firebase_password env_unreachable store0 (login_request ''a@x.com'' ''correct'')) = store0"
proof -
  have h1: "Call (FetchPasswordVerify (JStr ''s1'') (JStr ''h1'') ''correct'')
     \<in> set (fst (fst (migrate_firebase_password env_unreachable store0 (login_request ''a@x.com'' ''correct''))))"
    by (simp add: env_unreachable_def migrate_defs people_defs)
  have h2: "fetch_pw_verify env_unreachable (JStr ''s1'') (JStr ''h1'') ''correct'' \<noteq> Returns ''valid''"
    by (simp add: env_unreachable_def supabase_env_def)
  have v: "fetch_pw_verify env_unreachable (JStr ''s1'') (JStr ''h1'') ''correct'' = Throws ''connection refused''"
    by (simp add: env_unreachable_def supabase_env_def)
  from password_verifier_fails_closed [OF h1 h2] h1 h2 v show ?thesis
    by simp
qed

lemma wrong_password_no_write_at_request:
  "snd (fst (migrate_firebase_password env0 store0 (login_request ''a@x.com'' ''wrong''))) = credential_mismatch_response \<and>
   status (snd (fst (migrate_firebase_password env0 store0 (login_request ''a@x.com'' ''wrong'')))) = 401 \<and>
   snd (migrate_firebase_password env0 store0 (login_request ''a@x.com'' ''wrong'')) = store0 \<and>
   map_of (native_passwords (snd (migrate_firebase_password env0 store0 (login_request ''a@x.com'' ''wrong'')))) ''u-1'' = None"
  using wrong_password_no_write [of "login_request ''a@x.com'' ''wrong''" "''a@x.com''" "''wrong''" env0 store0
      invalid_login "\<lparr>users = [bob, alice], list_error = None\<rparr>" alice "''invalid''"]
  by (simp add: env0_def verifier0_def supabase_env_def store_sign_in_def store_list_def invalid_login_def
      login_request_def email_is_def fbuser_passwordHash_def fbuser_passwordSalt_def people_defs)

lemma no_source_password_answer_at_request:
  "snd (fst (migrate_firebase_password env0 store_oauth (login_request ''d@x.com'' ''anything''))) = no_source_password_response \<and>
   status no_source_password_response = 401 \<and>
   no_source_password_response \<noteq> credential_mismatch_response \<and>
   snd (migrate_firebase_password env0 store_oauth (login_request ''d@x.com'' ''anything'')) = store_oauth"
  using no_source_password_answer [of "login_request ''d@x.com'' ''anything''" "''d@x.com''" "''anything''" env0 store_oauth
      invalid_login "\<lparr>users = [oauth_user], list_error = None\<rparr>" oauth_user]
  by (simp add: env0_def verifier0_def supabase_env_def store_sign_in_def store_list_def invalid_login_def
      login_request_def email_is_def fbuser_passwordHash_def fbuser_passwordSalt_def people_defs)

lemma migrate_then_native_login_at_request:
  "status (snd (fst (migrate_firebase_password env0 store0 (login_request ''a@x.com'' ''correct'')))) = 200 \<and>
   body_field ''migrated'' (body (snd (fst (migrate_firebase_password env0 store0 (login_request ''a@x.com'' ''correct''))))) = Some (JBool True) \<and>
   map_of (native_passwords (snd (migrate_firebase_password env0 store0 (login_request ''a@x.com'' ''correct'')))) ''u-1'' = Some ''correct'' \<and>
   body_field ''migrated'' (body (snd (fst (migrate_firebase_password env0
       (snd (migrate_firebase_password env0 store0 (login_request ''a@x.com'' ''correct'')))
       (login_request ''a@x.com'' ''correct''))))) = Some (JBool False) \<and>
   fst (fst (migrate_firebase_password env0
       (snd (migrate_firebase_password env0 store0 (login_request ''a@x.com'' ''correct'')))
       (login_request ''a@x.com'' ''correct''))) = [Call (SignInWithPassword ''a@x.com'' ''correct'')]"
  using migrate_then_native_login [of "''a@x.com''" "''correct''" store0 alice "Some ''https://pw-verify.example/''" verifier0]
  by (simp add: env0_def verifier0_def Let_def email_is_def fbuser_passwordHash_def fbuser_passwordSalt_def people_defs)

section \<open>The password migration for a user beyond the first listing page\<close>

text \<open>The handler looks the user up in what one \<^verbatim>\<open>listUsers()\<close> call without a page
  argument answers (line 187); \<^verbatim>\<open>findUserByEmail\<close> of the verifyOtp variant pages
  through the listing instead. A record the call does not return is answered 404, whatever
  its metadata and whatever the password.\<close>

lemma filler_email:
  "\<not> email_is (CHR ''a'' # s) (filler n)" "\<not> email_is (CHR ''d'' # s) (filler n)"
  by (simp_all add: email_is_def filler_def toLowerCase_def toLowerCase_char_def)

lemma find_fillers:
  "List.find (email_is (CHR ''a'' # s)) (map filler ns) = None"
  "List.find (email_is (CHR ''d'' # s)) (map filler ns) = None"
  by (simp_all add: find_None_iff filler_email)

lemma not_listed_404:
  assumes "m_method req \<noteq> ''OPTIONS''" and "m_json req = Returns (Some e, Some p)"
    and "e \<noteq> []" and "p \<noteq> []"
    and "signInWithPassword env st e p = Returns l" and "login_session l = None"
    and "listUsers env st = Returns r" and "list_error r = None"
    and "List.find (email_is e) (users r) = None"
  shows "migrate_firebase_password env st req =
           ((login_failed_prefix e p, user_not_found_response), st)"
  using assms
  by (simp add: migrate_firebase_password_def login_or_migrate_def native_login_first_def
      lookup_and_verify_def login_failed_prefix_def Let_def catch_unexpected_def emit_def
      user_not_found_response_def)

lemma sign_in_unmigrated:
  "native_passwords st = [] \<Longrightarrow> store_sign_in st e p = Returns invalid_login"
  by (simp add: store_sign_in_def split: option.splits)

lemma run_store_51:
  assumes "p \<noteq> []"
  shows "migrate_firebase_password env0 store_51 (login_request ''a@x.com'' p) =
           ((login_failed_prefix ''a@x.com'' p, user_not_found_response), store_51)"
  using assms
  by (intro not_listed_404 [where l = invalid_login
        and r = "\<lparr>users = map filler [0..<50], list_error = None\<rparr>"])
    (simp_all add: login_request_def env0_def supabase_env_def sign_in_unmigrated store_51_def
      store_list_def invalid_login_def find_fillers del: upt.simps)

lemma run_store_51_oauth:
  assumes "p \<noteq> []"
  shows "migrate_firebase_password env0 store_51_oauth (login_request ''d@x.com'' p) =
           ((login_failed_prefix ''d@x.com'' p, user_not_found_response), store_51_oauth)"
  using assms
  by (intro not_listed_404 [where l = invalid_login
        and r = "\<lparr>users = map filler [0..<50], list_error = None\<rparr>"])
    (simp_all add: login_request_def env0_def supabase_env_def sign_in_unmigrated store_51_oauth_def
      store_list_def invalid_login_def find_fillers del: upt.simps)

text \<open>The paged lookup of the verifyOtp variant, asked for pages of 1000 of the same store,
  finds her on its first page.\<close>

lemma find_after_fillers:
  "List.find (email_is (CHR ''a'' # s)) (map filler ns @ us) = List.find (email_is (CHR ''a'' # s)) us"
  by (induction ns) (simp_all add: filler_email)

lemma paged_lookup_finds_user_51:
  "snd (findUserByEmail
          (\<lambda>page. Returns \<lparr>users = (if page = 1 then store_users store_51 else []), list_error = None\<rparr>)
          ''a@x.com'' 1) = Returns (Some alice)"
  by (subst findUserByEmail.simps)
    (simp add: emit_def store_51_def find_after_fillers email_is_def alice_def toLowerCase_lower
      del: upt.simps)

text \<open>C6 at the fifty-first user of the store: she has a source hash and salt, no native
  password, and the verifier confirms her plaintext, yet the first call answers 404 without
  a session; the verifier is never asked, no password is written, and her native password
  stays unset, so a repeated call cannot take the native-login path either.\<close>

theorem migration_misses_user_beyond_first_page:
  "alice \<in> set (store_users store_51) \<and>
   length (store_users store_51) = 51 \<and> page_size store_51 = 50 \<and>
   truthy_j (fbuser_passwordHash alice) \<and> truthy_j (fbuser_passwordSalt alice) \<and>
   fetch_pw_verify env0 (jopt (fbuser_passwordSalt alice)) (jopt (fbuser_passwordHash alice)) ''correct''
     = Returns ''valid'' \<and>
   status (snd (fst (migrate_firebase_password env0 store_51 (login_request ''a@x.com'' ''correct'')))) = 404 \<and>
   body_field ''session'' (body (snd (fst (migrate_firebase_password env0 store_51 (login_request ''a@x.com'' ''correct''))))) = None \<and>
   filter is_call (fst (fst (migrate_firebase_password env0 store_51 (login_request ''a@x.com'' ''correct''))))
     = [Call (SignInWithPassword ''a@x.com'' ''correct''), Call ListUsers] \<and>
   map_of (native_passwords (snd (migrate_firebase_password env0 store_51 (login_request ''a@x.com'' ''correct''))))
     (user_id alice) = None"
  by (simp add: run_store_51 user_not_found_response_def json_response_def login_failed_prefix_def)
    (simp add: store_51_def alice_def fbuser_passwordHash_def fbuser_passwordSalt_def env0_def
      supabase_env_def verifier0_def del: upt.simps)

text \<open>C7 at the same user with a plaintext the verifier rejects: the answer is 404 ``User
  not found'', not the 401 credential-mismatch response. Nothing is written.\<close>

theorem wrong_password_beyond_first_page_is_404:
  "alice \<in> set (store_users store_51) \<and>
   truthy_j (fbuser_passwordHash alice) \<and> truthy_j (fbuser_passwordSalt alice) \<and>
   fetch_pw_verify env0 (jopt (fbuser_passwordSalt alice)) (jopt (fbuser_passwordHash alice)) ''wrong''
     = Returns ''invalid'' \<and>
   snd (fst (migrate_firebase_password env0 store_51 (login_request ''a@x.com'' ''wrong''))) = user_not_found_response \<and>
   status user_not_found_response = 404 \<and>
   user_not_found_response \<noteq> credential_mismatch_response \<and>
   snd (migrate_firebase_password env0 store_51 (login_request ''a@x.com'' ''wrong'')) = store_51"
  by (simp add: run_store_51 user_not_found_response_def credential_mismatch_response_def json_response_def)
    (simp add: store_51_def alice_def fbuser_passwordHash_def fbuser_passwordSalt_def env0_def
      supabase_env_def verifier0_def del: upt.simps)

text \<open>C8 at an OAuth-only user who is the fifty-first record: the answer is 404 ``User not
  found'' with no hint, not the 401 response that carries the OAuth hint.\<close>

theorem oauth_user_beyond_first_page_is_404:
  "oauth_user \<in> set (store_users store_51_oauth) \<and>
   \<not> truthy_j (fbuser_passwordHash oauth_user) \<and>
   snd (fst (migrate_firebase_password env0 store_51_oauth (login_request ''d@x.com'' ''anything''))) = user_not_found_response \<and>
   status user_not_found_response = 404 \<and>
   body_field ''hint'' (body user_not_found_response) = None \<and>
   user_not_found_response \<noteq> no_source_password_response"
  by (simp add: run_store_51_oauth user_not_found_response_def no_source_password_response_def json_response_def)
    (simp add: store_51_oauth_def oauth_user_def fbuser_passwordHash_def del: upt.simps)

end
